theory Spec2Isabelle
  imports Main "HOL-Library.Word"
begin

section \<open>Shared data of the OpenGL backend (gl\_engine.cpp)\<close>

text \<open>
  The semantic tag of a buffer, a uniform or an attribute. The enum is declared in the
  engine header; these are the enumerators gl\_engine.cpp names.
\<close>

datatype RenderDataType =
    Vector2Float | Vector3Float | Vector4Float | Matrix44Float
  | Float | Int' | UInt | Vector2UInt | Vector3UInt | Vector4UInt

text \<open>
  Every \<open>throw\<close> and every call of \<open>exception(...)\<close> of the modelled functions is a value
  of this type; a function that can throw returns \<open>error + 'a\<close> with \<open>Inl\<close> the error.
\<close>

datatype error =
    WrongType                \<comment> \<open>checkType: "Tried to set GLAttributeBuffer with wrong type"\<close>
  | WrongArrayCount          \<comment> \<open>checkArray: "... wrong array count"\<close>
  | GLError                  \<comment> \<open>checkGLError: "OpenGl error occurred"\<close>
  | BadGetData               \<comment> \<open>"bad getData"\<close>
  | BadGetDataType           \<comment> \<open>"bad getData type"\<close>
  | TwiceDifferentTypes string   \<comment> \<open>"... appears twice in program with different types"\<close>
  | NoAttributes             \<comment> \<open>"Uh oh... GLProgram has no attributes"\<close>
  | CompileFailed            \<comment> \<open>shader compile or program link failure\<close>
  | WrongUniformType         \<comment> \<open>"Tried to set GLShaderUniform with wrong type"\<close>
  | NonexistentUniform string    \<comment> \<open>"Tried to set nonexistent uniform with name"\<close>
  | NonexistentAttribute string  \<comment> \<open>"Tried to set nonexistent attribute with name"\<close>
  | IncompatibleType string  \<comment> \<open>"Tried to set attribute ... to incompatibile type"\<close>
  | AlreadySet string        \<comment> \<open>"attribute ... is already set"\<close>
  | UnrecognizedAttributeType  \<comment> \<open>"Unrecognized GLShaderAttribute type"\<close>
  | CastFailed               \<comment> \<open>a dynamic cast to the GL class gave null\<close>
  | NotTested                \<comment> \<open>setTexture1D: "This code hasn't been testded yet."\<close>
  | TextureSetTwice          \<comment> \<open>"Attempted to set texture twice"\<close>
  | MismatchedDimension int  \<comment> \<open>"Tried to use texture with mismatched dimension"\<close>
  | NoTexture string         \<comment> \<open>"No texture with name"\<close>
  | UnknownColormap string   \<comment> \<open>thrown by the engine's getColorMap\<close>
  | UniformNotSet string     \<comment> \<open>"Uniform ... has not been set"\<close>
  | NoBufferAttached string  \<comment> \<open>"Attribute ... has no buffer attached"\<close>
  | AttributeNotSet string   \<comment> \<open>"Attribute ... has not been set"\<close>
  | DivisionByZero           \<comment> \<open>an integer division by 0 (undefined behaviour in C++)\<close>
  | InconsistentSize string  \<comment> \<open>"Attributes have inconsistent size."\<close>
  | TextureNotSet string     \<comment> \<open>"Texture ... has not been set"\<close>
  | IndexNotFilled           \<comment> \<open>"Index buffer has not been filled"\<close>
  | NoInstanceCount          \<comment> \<open>"Must set instance count to use instanced drawing"\<close>
  | NoShaderProgram string   \<comment> \<open>"No shader program with name [...] registered."\<close>
  | NoShaderRule string      \<comment> \<open>"No shader replacement rule with name [...] registered."\<close>
  | ReplacementFailed        \<comment> \<open>thrown inside applyShaderReplacements\<close>

section \<open>Attribute buffer\<close>

text \<open>
  Device storage is a list of four-byte cells. \<open>glBufferData\<close> with a null pointer
  allocates storage whose contents are undefined: such a cell is \<open>Indet\<close>. A float is its
  32-bit pattern and a double its 64-bit pattern; the conversions between them are
  parameters of the functions that convert.
\<close>

datatype cell = Indet | Bits "32 word"

type_synonym float32 = "32 word"
type_synonym float64 = "64 word"

text \<open>
  The fields of the base class \<open>AttributeBuffer\<close> that GLAttributeBuffer reads and
  writes: \<open>dataSize\<close> is an int64\_t, \<open>bufferSize\<close> a uint64\_t, \<open>arrayCount\<close> an int.
  \<open>store\<close> is the storage behind the handle \<open>VBOLoc\<close>.
\<close>

record GLAttributeBuffer =
  dataType :: RenderDataType
  arrayCount :: int
  dataSize :: int
  bufferSize :: nat
  setFlag :: bool
  store :: "cell list"

definition isSet :: "GLAttributeBuffer \<Rightarrow> bool" where
  "isSet b = setFlag b"

definition getDataSize :: "GLAttributeBuffer \<Rightarrow> int" where
  "getDataSize b = dataSize b"

definition getArrayCount :: "GLAttributeBuffer \<Rightarrow> int" where
  "getArrayCount b = arrayCount b"

definition getType :: "GLAttributeBuffer \<Rightarrow> RenderDataType" where
  "getType b = dataType b"

definition checkType :: "GLAttributeBuffer \<Rightarrow> RenderDataType \<Rightarrow> bool" where
  "checkType b targetType = (dataType b = targetType)"

definition checkArray :: "GLAttributeBuffer \<Rightarrow> int \<Rightarrow> bool" where
  "checkArray b testArrayCount = (testArrayCount = arrayCount b)"

text \<open>A size\_t or uint64\_t result, and the value of a size\_t converted to int64\_t.\<close>

definition u64 :: "nat \<Rightarrow> nat" where
  "u64 n = n mod 2 ^ 64"

definition to_int64 :: "nat \<Rightarrow> int" where
  "to_int64 n = (if u64 n < 2 ^ 63 then int (u64 n) else int (u64 n) - 2 ^ 64)"

definition to_size_t :: "int \<Rightarrow> nat" where
  "to_size_t i = nat (i mod 2 ^ 64)"

text \<open>
  The three native calls on the bound buffer, in cells. \<open>glBufferData\<close> with a null
  pointer gives fresh storage; the other two fail (GL\_INVALID\_VALUE, nothing written or
  read) when the range leaves the storage.
\<close>

definition glBufferData :: "nat \<Rightarrow> cell list" where
  "glBufferData n = replicate n Indet"

definition glBufferSubData :: "cell list \<Rightarrow> nat \<Rightarrow> cell list \<Rightarrow> cell list option" where
  "glBufferSubData st off src =
     (if off + length src \<le> length st
      then Some (take off st @ src @ drop (off + length src) st)
      else None)"

definition glGetBufferSubData :: "cell list \<Rightarrow> nat \<Rightarrow> nat \<Rightarrow> cell list option" where
  "glGetBufferSubData st off n =
     (if off + n \<le> length st then Some (take n (drop off st)) else None)"

text \<open>
  \<open>setData_helper<T>\<close>: \<open>k\<close> is sizeof(T) in cells and \<open>enc\<close> the object representation
  of a T. The final \<open>checkGLError()\<close> throws when the copy was refused.
\<close>

definition setData_helper ::
  "nat \<Rightarrow> ('a \<Rightarrow> 32 word list) \<Rightarrow> GLAttributeBuffer \<Rightarrow> 'a list \<Rightarrow> error + GLAttributeBuffer" where
  "setData_helper k enc b data =
     (let b1 = (if \<not> isSet b \<or> length data > bufferSize b
                then (let newSize = max (length data) (u64 (2 * bufferSize b))
                      in b\<lparr>setFlag := True, store := glBufferData (newSize * k),
                            bufferSize := newSize\<rparr>)
                else b);
          b2 = b1\<lparr>dataSize := to_int64 (length data)\<rparr>
      in case glBufferSubData (store b2) 0 (map Bits (concat (map enc data))) of
           None \<Rightarrow> Inl GLError
         | Some st \<Rightarrow> Inr (b2\<lparr>store := st\<rparr>))"

text \<open>Object representations of the element types.\<close>

type_synonym vec2 = "float32 \<times> float32"
type_synonym vec3 = "float32 \<times> float32 \<times> float32"
type_synonym vec4 = "float32 \<times> float32 \<times> float32 \<times> float32"
type_synonym uvec2 = "32 word \<times> 32 word"
type_synonym uvec3 = "32 word \<times> 32 word \<times> 32 word"
type_synonym uvec4 = "32 word \<times> 32 word \<times> 32 word \<times> 32 word"

fun enc1 :: "32 word \<Rightarrow> 32 word list" where
  "enc1 x = [x]"

fun enc2 :: "32 word \<times> 32 word \<Rightarrow> 32 word list" where
  "enc2 (x, y) = [x, y]"

fun enc3 :: "32 word \<times> 32 word \<times> 32 word \<Rightarrow> 32 word list" where
  "enc3 (x, y, z) = [x, y, z]"

fun enc4 :: "32 word \<times> 32 word \<times> 32 word \<times> 32 word \<Rightarrow> 32 word list" where
  "enc4 (x, y, z, w) = [x, y, z, w]"

text \<open>
  A \<open>std::array<glm::vec3, N>\<close> is N vectors laid out one after another; \<open>arr2\<close>,
  \<open>arr3\<close> and \<open>arr4\<close> list them.
\<close>

fun arr2 :: "vec3 \<times> vec3 \<Rightarrow> vec3 list" where
  "arr2 (a, b) = [a, b]"

fun arr3 :: "vec3 \<times> vec3 \<times> vec3 \<Rightarrow> vec3 list" where
  "arr3 (a, b, c) = [a, b, c]"

fun arr4 :: "vec3 \<times> vec3 \<times> vec3 \<times> vec3 \<Rightarrow> vec3 list" where
  "arr4 (a, b, c, d) = [a, b, c, d]"

definition encArr2 :: "vec3 \<times> vec3 \<Rightarrow> 32 word list" where
  "encArr2 x = concat (map enc3 (arr2 x))"

definition encArr3 :: "vec3 \<times> vec3 \<times> vec3 \<Rightarrow> 32 word list" where
  "encArr3 x = concat (map enc3 (arr3 x))"

definition encArr4 :: "vec3 \<times> vec3 \<times> vec3 \<times> vec3 \<Rightarrow> 32 word list" where
  "encArr4 x = concat (map enc3 (arr4 x))"

text \<open>The overloads of \<open>GLAttributeBuffer::setData\<close>, one per element type.\<close>

definition setData_vec2 :: "GLAttributeBuffer \<Rightarrow> vec2 list \<Rightarrow> error + GLAttributeBuffer" where
  "setData_vec2 b data =
     (if \<not> checkType b Vector2Float then Inl WrongType else setData_helper 2 enc2 b data)"

definition setData_vec3 :: "GLAttributeBuffer \<Rightarrow> vec3 list \<Rightarrow> error + GLAttributeBuffer" where
  "setData_vec3 b data =
     (if \<not> checkType b Vector3Float then Inl WrongType else setData_helper 3 enc3 b data)"

text \<open>The overloads for \<open>std::array<glm::vec3, N>\<close>, N = 2, 3, 4.\<close>

definition setData_vec3x2 ::
  "GLAttributeBuffer \<Rightarrow> (vec3 \<times> vec3) list \<Rightarrow> error + GLAttributeBuffer" where
  "setData_vec3x2 b data =
     (if \<not> checkType b Vector3Float then Inl WrongType
      else if \<not> checkArray b 2 then Inl WrongArrayCount
      else setData_helper 6 encArr2 b data)"

definition setData_vec3x3 ::
  "GLAttributeBuffer \<Rightarrow> (vec3 \<times> vec3 \<times> vec3) list \<Rightarrow> error + GLAttributeBuffer" where
  "setData_vec3x3 b data =
     (if \<not> checkType b Vector3Float then Inl WrongType
      else if \<not> checkArray b 3 then Inl WrongArrayCount
      else setData_helper 9 encArr3 b data)"

definition setData_vec3x4 ::
  "GLAttributeBuffer \<Rightarrow> (vec3 \<times> vec3 \<times> vec3 \<times> vec3) list
     \<Rightarrow> error + GLAttributeBuffer" where
  "setData_vec3x4 b data =
     (if \<not> checkType b Vector3Float then Inl WrongType
      else if \<not> checkArray b 4 then Inl WrongArrayCount
      else setData_helper 12 encArr4 b data)"

definition setData_vec4 :: "GLAttributeBuffer \<Rightarrow> vec4 list \<Rightarrow> error + GLAttributeBuffer" where
  "setData_vec4 b data =
     (if \<not> checkType b Vector4Float then Inl WrongType else setData_helper 4 enc4 b data)"

definition setData_float :: "GLAttributeBuffer \<Rightarrow> float32 list \<Rightarrow> error + GLAttributeBuffer" where
  "setData_float b data =
     (if \<not> checkType b Float then Inl WrongType else setData_helper 1 enc1 b data)"

text \<open>\<open>toFloat\<close> is \<open>static_cast<float>\<close> on a double.\<close>

definition setData_double ::
  "(float64 \<Rightarrow> float32) \<Rightarrow> GLAttributeBuffer \<Rightarrow> float64 list \<Rightarrow> error + GLAttributeBuffer" where
  "setData_double toFloat b data =
     (if \<not> checkType b Float then Inl WrongType
      else (let floatData = map toFloat data in setData_helper 1 enc1 b floatData))"

definition setData_int32 :: "GLAttributeBuffer \<Rightarrow> 32 word list \<Rightarrow> error + GLAttributeBuffer" where
  "setData_int32 b data =
     (if \<not> checkType b Int' then Inl WrongType else setData_helper 1 enc1 b data)"

definition setData_uint32 :: "GLAttributeBuffer \<Rightarrow> 32 word list \<Rightarrow> error + GLAttributeBuffer" where
  "setData_uint32 b data =
     (if \<not> checkType b UInt then Inl WrongType else setData_helper 1 enc1 b data)"

definition setData_uvec2 :: "GLAttributeBuffer \<Rightarrow> uvec2 list \<Rightarrow> error + GLAttributeBuffer" where
  "setData_uvec2 b data =
     (if \<not> checkType b Vector2UInt then Inl WrongType else setData_helper 2 enc2 b data)"

definition setData_uvec3 :: "GLAttributeBuffer \<Rightarrow> uvec3 list \<Rightarrow> error + GLAttributeBuffer" where
  "setData_uvec3 b data =
     (if \<not> checkType b Vector3UInt then Inl WrongType else setData_helper 3 enc3 b data)"

definition setData_uvec4 :: "GLAttributeBuffer \<Rightarrow> uvec4 list \<Rightarrow> error + GLAttributeBuffer" where
  "setData_uvec4 b data =
     (if \<not> checkType b Vector4UInt then Inl WrongType else setData_helper 4 enc4 b data)"

subsection \<open>Reading single values\<close>

text \<open>
  \<open>getData_helper<T>\<close> returns the k cells of the T at index \<open>ind\<close>. The local
  \<open>readValue\<close> is uninitialised, so a refused read leaves it indeterminate; no error is
  polled afterwards.
\<close>

definition getData_helper :: "nat \<Rightarrow> GLAttributeBuffer \<Rightarrow> nat \<Rightarrow> error + cell list" where
  "getData_helper k b ind =
     (if \<not> isSet b \<or> ind \<ge> to_size_t (getDataSize b * getArrayCount b) then Inl BadGetData
      else case glGetBufferSubData (store b) (ind * k) k of
             None \<Rightarrow> Inr (replicate k Indet)
           | Some cs \<Rightarrow> Inr cs)"

definition getData_float :: "GLAttributeBuffer \<Rightarrow> nat \<Rightarrow> error + cell list" where
  "getData_float b ind =
     (if getType b \<noteq> Float then Inl BadGetDataType else getData_helper 1 b ind)"

definition getData_vec2 :: "GLAttributeBuffer \<Rightarrow> nat \<Rightarrow> error + cell list" where
  "getData_vec2 b ind =
     (if getType b \<noteq> Vector2Float then Inl BadGetDataType else getData_helper 2 b ind)"

definition getData_vec3 :: "GLAttributeBuffer \<Rightarrow> nat \<Rightarrow> error + cell list" where
  "getData_vec3 b ind =
     (if getType b \<noteq> Vector3Float then Inl BadGetDataType else getData_helper 3 b ind)"

definition getData_vec4 :: "GLAttributeBuffer \<Rightarrow> nat \<Rightarrow> error + cell list" where
  "getData_vec4 b ind =
     (if getType b \<noteq> Vector4Float then Inl BadGetDataType else getData_helper 4 b ind)"

definition getData_int :: "GLAttributeBuffer \<Rightarrow> nat \<Rightarrow> error + cell list" where
  "getData_int b ind =
     (if getType b \<noteq> Int' then Inl BadGetDataType else getData_helper 1 b ind)"

definition getData_uint32 :: "GLAttributeBuffer \<Rightarrow> nat \<Rightarrow> error + cell list" where
  "getData_uint32 b ind =
     (if getType b \<noteq> UInt then Inl BadGetDataType else getData_helper 1 b ind)"

definition getData_uvec2 :: "GLAttributeBuffer \<Rightarrow> nat \<Rightarrow> error + cell list" where
  "getData_uvec2 b ind =
     (if getType b \<noteq> Vector2Float then Inl BadGetDataType else getData_helper 2 b ind)"

definition getData_uvec3 :: "GLAttributeBuffer \<Rightarrow> nat \<Rightarrow> error + cell list" where
  "getData_uvec3 b ind =
     (if getType b \<noteq> Vector3Float then Inl BadGetDataType else getData_helper 3 b ind)"

definition getData_uvec4 :: "GLAttributeBuffer \<Rightarrow> nat \<Rightarrow> error + cell list" where
  "getData_uvec4 b ind =
     (if getType b \<noteq> Vector4Float then Inl BadGetDataType else getData_helper 4 b ind)"

subsection \<open>Reading ranges\<close>

text \<open>\<open>chunks k n cs\<close> cuts the first \<open>n\<close> groups of \<open>k\<close> cells off \<open>cs\<close>.\<close>

fun chunks :: "nat \<Rightarrow> nat \<Rightarrow> 'a list \<Rightarrow> 'a list list" where
  "chunks k 0 cs = []"
| "chunks k (Suc n) cs = take k cs # chunks k n (drop k cs)"

text \<open>
  \<open>getDataRange_helper<T>\<close>: \<open>start + count\<close> is a size\_t sum. \<open>readValues(count)\<close>
  is value-initialised, so a refused read returns zeros.
\<close>

definition getDataRange_helper ::
  "nat \<Rightarrow> GLAttributeBuffer \<Rightarrow> nat \<Rightarrow> nat \<Rightarrow> error + cell list list" where
  "getDataRange_helper k b start count =
     (if \<not> isSet b \<or> u64 (start + count) > to_size_t (getDataSize b * getArrayCount b)
      then Inl BadGetData
      else case glGetBufferSubData (store b) (start * k) (count * k) of
             None \<Rightarrow> Inr (replicate count (replicate k (Bits 0)))
           | Some cs \<Rightarrow> Inr (chunks k count cs))"

definition getDataRange_float ::
  "GLAttributeBuffer \<Rightarrow> nat \<Rightarrow> nat \<Rightarrow> error + cell list list" where
  "getDataRange_float b start count =
     (if getType b \<noteq> Float then Inl BadGetDataType else getDataRange_helper 1 b start count)"

text \<open>
  \<open>getDataRange_double\<close> widens each float it read; \<open>toDouble\<close> is
  \<open>static_cast<double>\<close> on the float a cell holds.
\<close>

definition getDataRange_double ::
  "(cell \<Rightarrow> 'd) \<Rightarrow> GLAttributeBuffer \<Rightarrow> nat \<Rightarrow> nat \<Rightarrow> error + 'd list" where
  "getDataRange_double toDouble b start count =
     (case getDataRange_float b start count of
        Inl e \<Rightarrow> Inl e
      | Inr floatValues \<Rightarrow> Inr (map (\<lambda>i. toDouble (hd (floatValues ! i))) [0..<count]))"

definition getDataRange_vec2 ::
  "GLAttributeBuffer \<Rightarrow> nat \<Rightarrow> nat \<Rightarrow> error + cell list list" where
  "getDataRange_vec2 b start count =
     (if getType b \<noteq> Vector2Float then Inl BadGetDataType
      else getDataRange_helper 2 b start count)"

definition getDataRange_vec3 ::
  "GLAttributeBuffer \<Rightarrow> nat \<Rightarrow> nat \<Rightarrow> error + cell list list" where
  "getDataRange_vec3 b start count =
     (if getType b \<noteq> Vector3Float then Inl BadGetDataType
      else getDataRange_helper 3 b start count)"

definition getDataRange_vec4 ::
  "GLAttributeBuffer \<Rightarrow> nat \<Rightarrow> nat \<Rightarrow> error + cell list list" where
  "getDataRange_vec4 b start count =
     (if getType b \<noteq> Vector4Float then Inl BadGetDataType
      else getDataRange_helper 4 b start count)"

definition getDataRange_int ::
  "GLAttributeBuffer \<Rightarrow> nat \<Rightarrow> nat \<Rightarrow> error + cell list list" where
  "getDataRange_int b start count =
     (if getType b \<noteq> Int' then Inl BadGetDataType else getDataRange_helper 1 b start count)"

definition getDataRange_uint32 ::
  "GLAttributeBuffer \<Rightarrow> nat \<Rightarrow> nat \<Rightarrow> error + cell list list" where
  "getDataRange_uint32 b start count =
     (if getType b \<noteq> UInt then Inl BadGetDataType else getDataRange_helper 1 b start count)"

definition getDataRange_uvec2 ::
  "GLAttributeBuffer \<Rightarrow> nat \<Rightarrow> nat \<Rightarrow> error + cell list list" where
  "getDataRange_uvec2 b start count =
     (if getType b \<noteq> Vector2UInt then Inl BadGetDataType
      else getDataRange_helper 2 b start count)"

definition getDataRange_uvec3 ::
  "GLAttributeBuffer \<Rightarrow> nat \<Rightarrow> nat \<Rightarrow> error + cell list list" where
  "getDataRange_uvec3 b start count =
     (if getType b \<noteq> Vector3UInt then Inl BadGetDataType
      else getDataRange_helper 3 b start count)"

definition getDataRange_uvec4 ::
  "GLAttributeBuffer \<Rightarrow> nat \<Rightarrow> nat \<Rightarrow> error + cell list list" where
  "getDataRange_uvec4 b start count =
     (if getType b \<noteq> Vector4UInt then Inl BadGetDataType
      else getDataRange_helper 4 b start count)"

subsection \<open>The overload sets as one function each\<close>

text \<open>
  A call of \<open>setData\<close> picks its overload by the argument's type: the argument is a
  tagged value and \<open>setData\<close> dispatches on the tag. \<open>dataLength\<close> is
  \<open>data.size()\<close> and \<open>cellsOf\<close> the sizeof of the element type, in cells.
\<close>

datatype BufferData =
    DVec2 "vec2 list" | DVec3 "vec3 list"
  | DVec3x2 "(vec3 \<times> vec3) list" | DVec3x3 "(vec3 \<times> vec3 \<times> vec3) list"
  | DVec3x4 "(vec3 \<times> vec3 \<times> vec3 \<times> vec3) list"
  | DVec4 "vec4 list" | DFloat "float32 list" | DDouble "float64 list"
  | DInt32 "32 word list" | DUInt32 "32 word list"
  | DUVec2 "uvec2 list" | DUVec3 "uvec3 list" | DUVec4 "uvec4 list"

fun setData ::
  "(float64 \<Rightarrow> float32) \<Rightarrow> GLAttributeBuffer \<Rightarrow> BufferData \<Rightarrow> error + GLAttributeBuffer" where
  "setData toFloat b (DVec2 xs) = setData_vec2 b xs"
| "setData toFloat b (DVec3 xs) = setData_vec3 b xs"
| "setData toFloat b (DVec3x2 xs) = setData_vec3x2 b xs"
| "setData toFloat b (DVec3x3 xs) = setData_vec3x3 b xs"
| "setData toFloat b (DVec3x4 xs) = setData_vec3x4 b xs"
| "setData toFloat b (DVec4 xs) = setData_vec4 b xs"
| "setData toFloat b (DFloat xs) = setData_float b xs"
| "setData toFloat b (DDouble xs) = setData_double toFloat b xs"
| "setData toFloat b (DInt32 xs) = setData_int32 b xs"
| "setData toFloat b (DUInt32 xs) = setData_uint32 b xs"
| "setData toFloat b (DUVec2 xs) = setData_uvec2 b xs"
| "setData toFloat b (DUVec3 xs) = setData_uvec3 b xs"
| "setData toFloat b (DUVec4 xs) = setData_uvec4 b xs"




text \<open>
  The point and range getters, chosen by name in the source, as one function each over
  the name.
\<close>

datatype getter =
    As_float | As_vec2 | As_vec3 | As_vec4 | As_int | As_uint32 | As_uvec2 | As_uvec3 | As_uvec4

fun getData :: "getter \<Rightarrow> GLAttributeBuffer \<Rightarrow> nat \<Rightarrow> error + cell list" where
  "getData As_float = getData_float"
| "getData As_vec2 = getData_vec2"
| "getData As_vec3 = getData_vec3"
| "getData As_vec4 = getData_vec4"
| "getData As_int = getData_int"
| "getData As_uint32 = getData_uint32"
| "getData As_uvec2 = getData_uvec2"
| "getData As_uvec3 = getData_uvec3"
| "getData As_uvec4 = getData_uvec4"

fun getDataRange :: "getter \<Rightarrow> GLAttributeBuffer \<Rightarrow> nat \<Rightarrow> nat \<Rightarrow> error + cell list list" where
  "getDataRange As_float = getDataRange_float"
| "getDataRange As_vec2 = getDataRange_vec2"
| "getDataRange As_vec3 = getDataRange_vec3"
| "getDataRange As_vec4 = getDataRange_vec4"
| "getDataRange As_int = getDataRange_int"
| "getDataRange As_uint32 = getDataRange_uint32"
| "getDataRange As_uvec2 = getDataRange_uvec2"
| "getDataRange As_uvec3 = getDataRange_uvec3"
| "getDataRange As_uvec4 = getDataRange_uvec4"



text \<open>A float buffer as its constructor leaves it: never written, no storage.\<close>

definition floatBuffer :: GLAttributeBuffer where
  "floatBuffer = \<lparr>dataType = Float, arrayCount = 1, dataSize = - 1, bufferSize = 0,
     setFlag = False, store = []\<rparr>"

text \<open>Buffers the examples below run on.\<close>

definition narrowedFloats :: GLAttributeBuffer where
  "narrowedFloats = \<lparr>dataType = Float, arrayCount = 1, dataSize = 2, bufferSize = 2,
     setFlag = True, store = [Bits 7, Bits 8]\<rparr>"

definition vec3x3Buffer :: GLAttributeBuffer where
  "vec3x3Buffer = \<lparr>dataType = Vector3Float, arrayCount = 3, dataSize = - 1, bufferSize = 0,
     setFlag = False, store = []\<rparr>"

definition vec3x3Written :: GLAttributeBuffer where
  "vec3x3Written = \<lparr>dataType = Vector3Float, arrayCount = 3, dataSize = 1, bufferSize = 1,
     setFlag = True,
     store = [Bits 1, Bits 2, Bits 3, Bits 4, Bits 5, Bits 6, Bits 7, Bits 8, Bits 9]\<rparr>"

definition uvec2Written :: GLAttributeBuffer where
  "uvec2Written = \<lparr>dataType = Vector2UInt, arrayCount = 1, dataSize = 1, bufferSize = 1,
     setFlag = True, store = [Bits 1, Bits 2]\<rparr>"

section \<open>Compiled program\<close>

text \<open>
  The declarations a shader stage brings (\<open>ShaderSpecUniform\<close>, \<open>ShaderSpecAttribute\<close>,
  \<open>ShaderSpecTexture\<close>) and the stage itself. Field names carry a prefix, since one
  theory cannot have two records with a field \<open>name\<close>.
\<close>

record ShaderSpecUniform =
  su_name :: string
  su_type :: RenderDataType

record ShaderSpecAttribute =
  sa_name :: string
  sa_type :: RenderDataType
  sa_arrayCount :: int

record ShaderSpecTexture =
  st_name :: string
  st_dim :: int

datatype ShaderStageType = Vertex | Geometry | Fragment

record ShaderStageSpecification =
  s_stage :: ShaderStageType
  s_uniforms :: "ShaderSpecUniform list"
  s_attributes :: "ShaderSpecAttribute list"
  s_textures :: "ShaderSpecTexture list"
  s_src :: string

datatype DrawMode =
    Points | Triangles | Lines | TrianglesAdjacency | LinesAdjacency
  | IndexedLines | IndexedLineStrip | IndexedLinesAdjacency | IndexedLineStripAdjacency
  | IndexedTriangles | TrianglesInstanced | TriangleStripInstanced

text \<open>A texture object of this backend: what the setters of a program store in a slot.\<close>

datatype TextureFormat = RGB8 | RGBA8 | RG16F | RGB16F | RGBA16F | R32F | R16F | RGB32F | RGBA32F | DEPTH24

datatype FilterMode = Nearest | Linear

datatype pixels = NoPixels | BytePixels "8 word list" | FloatPixels "float32 list"

record GLTextureBuffer =
  tex_dim :: int
  tex_format :: TextureFormat
  tex_sizes :: "nat list"
  tex_filter :: FilterMode
  tex_repeat :: bool
  tex_mipmap :: bool
  tex_data :: pixels

text \<open>
  The entries of a program's interface. A location is the native binding location;
  \<open>- 1\<close> is what the driver answers for a name it optimised out.
\<close>

record GLShaderUniform =
  u_name :: string
  u_type :: RenderDataType
  u_isSet :: bool
  u_location :: int

record GLShaderAttribute =
  a_name :: string
  a_type :: RenderDataType
  a_arrayCount :: int
  a_location :: int
  a_buff :: "GLAttributeBuffer option"

record GLShaderTexture =
  t_name :: string
  t_dim :: int
  t_index :: nat
  t_isSet :: bool
  t_textureBuffer :: "GLTextureBuffer option"
  t_textureBufferOwned :: "GLTextureBuffer option"
  t_location :: int

text \<open>
  \<open>addUniqueUniform\<close>, \<open>addUniqueAttribute\<close>, \<open>addUniqueTexture\<close>: the loop returns at
  the first entry of the same name, throwing when its type (dimension) differs, and the
  entry is appended when the loop finds none.
\<close>

definition addUniqueUniform ::
  "GLShaderUniform list \<Rightarrow> ShaderSpecUniform \<Rightarrow> error + GLShaderUniform list" where
  "addUniqueUniform us newUniform =
     (case find (\<lambda>u. u_name u = su_name newUniform) us of
        Some u \<Rightarrow>
          if u_type u \<noteq> su_type newUniform then Inl (TwiceDifferentTypes (u_name u))
          else Inr us
      | None \<Rightarrow>
          Inr (us @ [\<lparr>u_name = su_name newUniform, u_type = su_type newUniform,
                       u_isSet = False, u_location = 777\<rparr>]))"

definition addUniqueAttribute ::
  "GLShaderAttribute list \<Rightarrow> ShaderSpecAttribute \<Rightarrow> error + GLShaderAttribute list" where
  "addUniqueAttribute as newAttribute =
     (case find (\<lambda>a. a_name a = sa_name newAttribute) as of
        Some a \<Rightarrow>
          if a_type a \<noteq> sa_type newAttribute then Inl (TwiceDifferentTypes (a_name a))
          else Inr as
      | None \<Rightarrow>
          Inr (as @ [\<lparr>a_name = sa_name newAttribute, a_type = sa_type newAttribute,
                       a_arrayCount = sa_arrayCount newAttribute, a_location = - 1,
                       a_buff = None\<rparr>]))"

definition addUniqueTexture ::
  "GLShaderTexture list \<Rightarrow> ShaderSpecTexture \<Rightarrow> error + GLShaderTexture list" where
  "addUniqueTexture ts newTexture =
     (case find (\<lambda>t. t_name t = st_name newTexture) ts of
        Some t \<Rightarrow>
          if t_dim t \<noteq> st_dim newTexture then Inl (TwiceDifferentTypes (t_name t))
          else Inr ts
      | None \<Rightarrow>
          Inr (ts @ [\<lparr>t_name = st_name newTexture, t_dim = st_dim newTexture, t_index = 777,
                       t_isSet = False, t_textureBuffer = None, t_textureBufferOwned = None,
                       t_location = 777\<rparr>]))"

text \<open>The three inner loops of the constructor, and its outer loop over the stages.\<close>

fun addUniforms ::
  "GLShaderUniform list \<Rightarrow> ShaderSpecUniform list \<Rightarrow> error + GLShaderUniform list" where
  "addUniforms us [] = Inr us"
| "addUniforms us (u # rest) =
     (case addUniqueUniform us u of Inl e \<Rightarrow> Inl e | Inr us' \<Rightarrow> addUniforms us' rest)"

fun addAttributes ::
  "GLShaderAttribute list \<Rightarrow> ShaderSpecAttribute list \<Rightarrow> error + GLShaderAttribute list" where
  "addAttributes as [] = Inr as"
| "addAttributes as (a # rest) =
     (case addUniqueAttribute as a of Inl e \<Rightarrow> Inl e | Inr as' \<Rightarrow> addAttributes as' rest)"

fun addTextures ::
  "GLShaderTexture list \<Rightarrow> ShaderSpecTexture list \<Rightarrow> error + GLShaderTexture list" where
  "addTextures ts [] = Inr ts"
| "addTextures ts (t # rest) =
     (case addUniqueTexture ts t of Inl e \<Rightarrow> Inl e | Inr ts' \<Rightarrow> addTextures ts' rest)"

fun collectStages ::
  "GLShaderUniform list \<times> GLShaderAttribute list \<times> GLShaderTexture list
     \<Rightarrow> ShaderStageSpecification list
     \<Rightarrow> error + GLShaderUniform list \<times> GLShaderAttribute list \<times> GLShaderTexture list" where
  "collectStages acc [] = Inr acc"
| "collectStages (us, as, ts) (s # rest) =
     (case addUniforms us (s_uniforms s) of
        Inl e \<Rightarrow> Inl e
      | Inr us' \<Rightarrow>
          (case addAttributes as (s_attributes s) of
             Inl e \<Rightarrow> Inl e
           | Inr as' \<Rightarrow>
               (case addTextures ts (s_textures s) of
                  Inl e \<Rightarrow> Inl e
                | Inr ts' \<Rightarrow> collectStages (us', as', ts') rest)))"

record GLCompiledProgram =
  cp_drawMode :: DrawMode
  cp_uniforms :: "GLShaderUniform list"
  cp_attributes :: "GLShaderAttribute list"
  cp_textures :: "GLShaderTexture list"

text \<open>
  The driver is a parameter of the constructor: \<open>compiles\<close> says whether every stage
  compiles and the program links, \<open>uniformLocation\<close> and \<open>attribLocation\<close> are
  \<open>glGetUniformLocation\<close> and \<open>glGetAttribLocation\<close> on the linked program.
  \<open>setDataLocations\<close> asks for the location of every entry and throws for none.
\<close>

definition setDataLocations ::
  "(string \<Rightarrow> int) \<Rightarrow> (string \<Rightarrow> int) \<Rightarrow> GLCompiledProgram \<Rightarrow> GLCompiledProgram" where
  "setDataLocations uniformLocation attribLocation cp =
     cp\<lparr>cp_uniforms := map (\<lambda>u. u\<lparr>u_location := uniformLocation (u_name u)\<rparr>) (cp_uniforms cp),
        cp_attributes := map (\<lambda>a. a\<lparr>a_location := attribLocation (a_name a)\<rparr>) (cp_attributes cp),
        cp_textures := map (\<lambda>t. t\<lparr>t_location := uniformLocation (t_name t)\<rparr>) (cp_textures cp)\<rparr>"

definition GLCompiledProgram_new ::
  "(ShaderStageSpecification list \<Rightarrow> bool) \<Rightarrow> (string \<Rightarrow> int) \<Rightarrow> (string \<Rightarrow> int)
     \<Rightarrow> ShaderStageSpecification list \<Rightarrow> DrawMode \<Rightarrow> error + GLCompiledProgram" where
  "GLCompiledProgram_new compiles uniformLocation attribLocation stages dm =
     (case collectStages ([], [], []) stages of
        Inl e \<Rightarrow> Inl e
      | Inr (us, as, ts) \<Rightarrow>
          if length as = 0 then Inl NoAttributes
          else if \<not> compiles stages then Inl CompileFailed
          else Inr (setDataLocations uniformLocation attribLocation
                 \<lparr>cp_drawMode = dm, cp_uniforms = us, cp_attributes = as, cp_textures = ts\<rparr>))"

text \<open>All declarations of a list of stages, in the order the constructor meets them.\<close>

definition allUniforms :: "ShaderStageSpecification list \<Rightarrow> ShaderSpecUniform list" where
  "allUniforms stages = concat (map s_uniforms stages)"

definition allAttributes :: "ShaderStageSpecification list \<Rightarrow> ShaderSpecAttribute list" where
  "allAttributes stages = concat (map s_attributes stages)"

definition allTextures :: "ShaderStageSpecification list \<Rightarrow> ShaderSpecTexture list" where
  "allTextures stages = concat (map s_textures stages)"

text \<open>
  Two stage lists for the examples: a vertex stage and a fragment stage that both
  declare the uniform \<open>u_color\<close> with one type, and the same with the fragment stage's
  declaration changed to another type.
\<close>

definition meshStages :: "ShaderStageSpecification list" where
  "meshStages =
     [\<lparr>s_stage = Vertex,
       s_uniforms = [\<lparr>su_name = ''u_color'', su_type = Vector3Float\<rparr>],
       s_attributes = [\<lparr>sa_name = ''a_position'', sa_type = Vector3Float, sa_arrayCount = 1\<rparr>],
       s_textures = [], s_src = ''vert''\<rparr>,
      \<lparr>s_stage = Fragment,
       s_uniforms = [\<lparr>su_name = ''u_color'', su_type = Vector3Float\<rparr>],
       s_attributes = [], s_textures = [], s_src = ''frag''\<rparr>]"


definition meshProgram :: GLCompiledProgram where
  "meshProgram =
     \<lparr>cp_drawMode = Triangles,
      cp_uniforms = [\<lparr>u_name = ''u_color'', u_type = Vector3Float, u_isSet = False,
                       u_location = 0\<rparr>],
      cp_attributes = [\<lparr>a_name = ''a_position'', a_type = Vector3Float, a_arrayCount = 1,
                         a_location = 0, a_buff = None\<rparr>],
      cp_textures = []\<rparr>"

section \<open>Shader program instance\<close>

text \<open>
  A program instance holds its own copy of the compiled program's three lists, and the
  fields of the base class \<open>ShaderProgram\<close> that gl\_engine.cpp reads and writes. An
  attribute's buffer is held by value: no claim below depends on two attributes sharing
  one buffer.
\<close>

record GLShaderProgram =
  sp_uniforms :: "GLShaderUniform list"
  sp_attributes :: "GLShaderAttribute list"
  sp_textures :: "GLShaderTexture list"
  sp_drawMode :: DrawMode
  sp_useIndex :: bool
  sp_indexBuffer :: "GLAttributeBuffer option"
  sp_indexSizeMult :: int
  sp_instanceCount :: nat
  sp_drawDataLength :: nat

definition hasUniform :: "GLShaderProgram \<Rightarrow> string \<Rightarrow> bool" where
  "hasUniform p name = list_ex (\<lambda>u. u_name u = name \<and> u_location u \<noteq> - 1) (sp_uniforms p)"

definition hasAttribute :: "GLShaderProgram \<Rightarrow> string \<Rightarrow> bool" where
  "hasAttribute p name = list_ex (\<lambda>a. a_name a = name \<and> a_location a \<noteq> - 1) (sp_attributes p)"

definition hasTexture :: "GLShaderProgram \<Rightarrow> string \<Rightarrow> bool" where
  "hasTexture p name = list_ex (\<lambda>t. t_name t = name \<and> t_location t \<noteq> - 1) (sp_textures p)"

text \<open>
  The overloads of \<open>setUniform\<close> differ in the type they compare the uniform's with and
  in the native call that sends the value; the value is not kept in the program. An
  overload is named by its argument type.
\<close>

datatype UniformArg =
    Arg_int | Arg_uint | Arg_float | Arg_double | Arg_floatPtr | Arg_vec2 | Arg_vec3 | Arg_vec4
  | Arg_floatArray3 | Arg_xyzw | Arg_uvec2 | Arg_uvec3 | Arg_uvec4

fun overloadType :: "UniformArg \<Rightarrow> RenderDataType" where
  "overloadType Arg_int = Int'"
| "overloadType Arg_uint = UInt"
| "overloadType Arg_float = Float"
| "overloadType Arg_double = Float"
| "overloadType Arg_floatPtr = Matrix44Float"
| "overloadType Arg_vec2 = Vector2Float"
| "overloadType Arg_vec3 = Vector3Float"
| "overloadType Arg_vec4 = Vector4Float"
| "overloadType Arg_floatArray3 = Vector3Float"
| "overloadType Arg_xyzw = Vector4Float"
| "overloadType Arg_uvec2 = Vector2UInt"
| "overloadType Arg_uvec3 = Vector3UInt"
| "overloadType Arg_uvec4 = Vector4UInt"

fun setUniform_loop ::
  "GLShaderUniform list \<Rightarrow> string \<Rightarrow> RenderDataType \<Rightarrow> error + GLShaderUniform list" where
  "setUniform_loop [] name ty = Inl (NonexistentUniform name)"
| "setUniform_loop (u # us) name ty =
     (if u_name u = name then
        (if u_location u = - 1 then Inr (u # us)
         else if u_type u = ty then Inr (u\<lparr>u_isSet := True\<rparr> # us)
         else Inl WrongUniformType)
      else (case setUniform_loop us name ty of
              Inl e \<Rightarrow> Inl e
            | Inr us' \<Rightarrow> Inr (u # us')))"

definition setUniform :: "GLShaderProgram \<Rightarrow> string \<Rightarrow> UniformArg \<Rightarrow> error + GLShaderProgram" where
  "setUniform p name val =
     (case setUniform_loop (sp_uniforms p) name (overloadType val) of
        Inl e \<Rightarrow> Inl e
      | Inr us \<Rightarrow> Inr (p\<lparr>sp_uniforms := us\<rparr>))"

text \<open>
  \<open>assignBufferToVAO\<close> walks the array indices of the attribute and throws in the
  \<open>default\<close> branch of its switch, which only Matrix44Float reaches.
\<close>

definition assignBufferToVAO :: "GLShaderAttribute \<Rightarrow> error option" where
  "assignBufferToVAO a =
     (if 0 < a_arrayCount a \<and> a_type a = Matrix44Float then Some UnrecognizedAttributeType
      else None)"

text \<open>
  An \<open>AttributeBuffer\<close> handed in from outside is one of this backend or of another; of
  the latter only the type is read before the cast fails.
\<close>

datatype AttributeBuffer = GLBuffer GLAttributeBuffer | OtherBuffer RenderDataType

fun bufferType :: "AttributeBuffer \<Rightarrow> RenderDataType" where
  "bufferType (GLBuffer b) = getType b"
| "bufferType (OtherBuffer ty) = ty"

text \<open>
  \<open>setAttribute(name, externalBuffer)\<close>. \<open>countCompat\<close> is
  \<open>renderDataTypeCountCompatbility\<close>, declared outside this file.
\<close>

fun setAttribute_buffer_loop ::
  "(RenderDataType \<Rightarrow> RenderDataType \<Rightarrow> int) \<Rightarrow> GLShaderAttribute list \<Rightarrow> string
     \<Rightarrow> AttributeBuffer \<Rightarrow> error + GLShaderAttribute list" where
  "setAttribute_buffer_loop countCompat [] name externalBuffer = Inl (NonexistentAttribute name)"
| "setAttribute_buffer_loop countCompat (a # as) name externalBuffer =
     (if a_name a = name then
        (if a_location a = - 1 then Inr (a # as)
         else if countCompat (a_type a) (bufferType externalBuffer) = 0 then Inl (IncompatibleType name)
         else if a_buff a \<noteq> None then Inl (AlreadySet name)
         else (case externalBuffer of
                 OtherBuffer ty \<Rightarrow> Inl CastFailed
               | GLBuffer engineExtBuff \<Rightarrow>
                   (case assignBufferToVAO (a\<lparr>a_buff := Some engineExtBuff\<rparr>) of
                      Some e \<Rightarrow> Inl e
                    | None \<Rightarrow> Inr (a\<lparr>a_buff := Some engineExtBuff\<rparr> # as))))
      else (case setAttribute_buffer_loop countCompat as name externalBuffer of
              Inl e \<Rightarrow> Inl e
            | Inr as' \<Rightarrow> Inr (a # as')))"

definition setAttribute_buffer ::
  "(RenderDataType \<Rightarrow> RenderDataType \<Rightarrow> int) \<Rightarrow> GLShaderProgram \<Rightarrow> string
     \<Rightarrow> AttributeBuffer \<Rightarrow> error + GLShaderProgram" where
  "setAttribute_buffer countCompat p name externalBuffer =
     (case setAttribute_buffer_loop countCompat (sp_attributes p) name externalBuffer of
        Inl e \<Rightarrow> Inl e
      | Inr as \<Rightarrow> Inr (p\<lparr>sp_attributes := as\<rparr>))"

text \<open>
  \<open>ensureBufferExists\<close> and \<open>createBuffer\<close>; \<open>generateAttributeBuffer\<close> is the engine's
  factory, which runs the buffer's constructor.
\<close>

definition createBuffer ::
  "(RenderDataType \<Rightarrow> int \<Rightarrow> GLAttributeBuffer) \<Rightarrow> GLShaderAttribute \<Rightarrow> error + GLShaderAttribute" where
  "createBuffer generateAttributeBuffer a =
     (if a_location a = - 1 then Inr a
      else (let a' = a\<lparr>a_buff := Some (generateAttributeBuffer (a_type a) (a_arrayCount a))\<rparr>
            in case assignBufferToVAO a' of Some e \<Rightarrow> Inl e | None \<Rightarrow> Inr a'))"

definition ensureBufferExists ::
  "(RenderDataType \<Rightarrow> int \<Rightarrow> GLAttributeBuffer) \<Rightarrow> GLShaderAttribute \<Rightarrow> error + GLShaderAttribute" where
  "ensureBufferExists generateAttributeBuffer a =
     (if a_location a \<noteq> - 1 \<and> a_buff a = None then createBuffer generateAttributeBuffer a
      else Inr a)"

text \<open>
  The overloads of \<open>setAttribute(name, data)\<close>: there is one for each of these seven
  element types, and each passes its data to the overload of \<open>setData\<close> of that type.
  After \<open>ensureBufferExists\<close> a resolved attribute has a buffer, so the branch for a
  null \<open>a.buff\<close> is never taken.
\<close>

datatype AttributeData =
    AVec2 "vec2 list" | AVec3 "vec3 list" | AVec4 "vec4 list" | AFloat "float32 list"
  | ADouble "float64 list" | AInt32 "32 word list" | AUInt32 "32 word list"

fun bufferData :: "AttributeData \<Rightarrow> BufferData" where
  "bufferData (AVec2 xs) = DVec2 xs"
| "bufferData (AVec3 xs) = DVec3 xs"
| "bufferData (AVec4 xs) = DVec4 xs"
| "bufferData (AFloat xs) = DFloat xs"
| "bufferData (ADouble xs) = DDouble xs"
| "bufferData (AInt32 xs) = DInt32 xs"
| "bufferData (AUInt32 xs) = DUInt32 xs"

fun setAttribute_data_loop ::
  "(RenderDataType \<Rightarrow> int \<Rightarrow> GLAttributeBuffer) \<Rightarrow> (float64 \<Rightarrow> float32)
     \<Rightarrow> GLShaderAttribute list \<Rightarrow> string \<Rightarrow> AttributeData \<Rightarrow> error + GLShaderAttribute list" where
  "setAttribute_data_loop gen toFloat [] name data = Inl (NonexistentAttribute name)"
| "setAttribute_data_loop gen toFloat (a # as) name data =
     (if a_name a = name \<and> a_location a \<noteq> - 1 then
        (case ensureBufferExists gen a of
           Inl e \<Rightarrow> Inl e
         | Inr a' \<Rightarrow>
             (case a_buff a' of
                None \<Rightarrow> Inr (a' # as)
              | Some b \<Rightarrow>
                  (case setData toFloat b (bufferData data) of
                     Inl e \<Rightarrow> Inl e
                   | Inr b' \<Rightarrow> Inr (a'\<lparr>a_buff := Some b'\<rparr> # as))))
      else (case setAttribute_data_loop gen toFloat as name data of
              Inl e \<Rightarrow> Inl e
            | Inr as' \<Rightarrow> Inr (a # as')))"

definition setAttribute_data ::
  "(RenderDataType \<Rightarrow> int \<Rightarrow> GLAttributeBuffer) \<Rightarrow> (float64 \<Rightarrow> float32)
     \<Rightarrow> GLShaderProgram \<Rightarrow> string \<Rightarrow> AttributeData \<Rightarrow> error + GLShaderProgram" where
  "setAttribute_data gen toFloat p name data =
     (case setAttribute_data_loop gen toFloat (sp_attributes p) name data of
        Inl e \<Rightarrow> Inl e
      | Inr as \<Rightarrow> Inr (p\<lparr>sp_attributes := as\<rparr>))"

subsection \<open>Texture setters\<close>

text \<open>
  Each texture setter walks the textures, skips an entry of another name or without a
  location, runs its body on the first entry left and returns; it throws "No texture with
  name" when the walk ends.
\<close>

fun withTexture ::
  "string \<Rightarrow> (GLShaderTexture \<Rightarrow> error + GLShaderTexture) \<Rightarrow> GLShaderTexture list
     \<Rightarrow> error + GLShaderTexture list" where
  "withTexture name body [] = Inl (NoTexture name)"
| "withTexture name body (t # ts) =
     (if t_name t \<noteq> name \<or> t_location t = - 1 then
        (case withTexture name body ts of
           Inl e \<Rightarrow> Inl e
         | Inr ts' \<Rightarrow> Inr (t # ts'))
      else (case body t of
              Inl e \<Rightarrow> Inl e
            | Inr t' \<Rightarrow> Inr (t' # ts)))"

definition setTexture1D ::
  "GLShaderProgram \<Rightarrow> string \<Rightarrow> 8 word list \<Rightarrow> nat \<Rightarrow> error + GLShaderProgram" where
  "setTexture1D p name texData len = Inl NotTested"

definition setTexture2D ::
  "GLShaderProgram \<Rightarrow> string \<Rightarrow> 8 word list \<Rightarrow> nat \<Rightarrow> nat \<Rightarrow> bool \<Rightarrow> bool \<Rightarrow> bool
     \<Rightarrow> error + GLShaderProgram" where
  "setTexture2D p name texData width height withAlpha useMipMap repeat =
     (case withTexture name
             (\<lambda>t. if t_isSet t then Inl TextureSetTwice
                  else if t_dim t \<noteq> 2 then Inl (MismatchedDimension (t_dim t))
                  else (let owned = \<lparr>tex_dim = 2,
                                      tex_format = (if withAlpha then RGBA8 else RGB8),
                                      tex_sizes = [width, height], tex_filter = Linear,
                                      tex_repeat = repeat, tex_mipmap = useMipMap,
                                      tex_data = BytePixels texData\<rparr>
                        in Inr (t\<lparr>t_textureBufferOwned := Some owned,
                                  t_textureBuffer := Some owned, t_isSet := True\<rparr>)))
             (sp_textures p) of
        Inl e \<Rightarrow> Inl e
      | Inr ts \<Rightarrow> Inr (p\<lparr>sp_textures := ts\<rparr>))"

text \<open>A \<open>TextureBuffer\<close> handed in from outside: of this backend, or of another.\<close>

datatype TextureBuffer = GLTexture GLTextureBuffer | OtherTexture int

fun getDimension :: "TextureBuffer \<Rightarrow> int" where
  "getDimension (GLTexture tex) = tex_dim tex"
| "getDimension (OtherTexture d) = d"

definition setTextureFromBuffer ::
  "GLShaderProgram \<Rightarrow> string \<Rightarrow> TextureBuffer \<Rightarrow> error + GLShaderProgram" where
  "setTextureFromBuffer p name textureBuffer =
     (case withTexture name
             (\<lambda>t. if t_dim t \<noteq> getDimension textureBuffer
                  then Inl (MismatchedDimension (t_dim t))
                  else (case textureBuffer of
                          OtherTexture d \<Rightarrow> Inl CastFailed
                        | GLTexture tex \<Rightarrow>
                            Inr (t\<lparr>t_textureBuffer := Some tex, t_isSet := True\<rparr>)))
             (sp_textures p) of
        Inl e \<Rightarrow> Inl e
      | Inr ts \<Rightarrow> Inr (p\<lparr>sp_textures := ts\<rparr>))"

text \<open>
  \<open>getColorMap\<close> is the engine's lookup of a colormap's sample table (it throws on a
  name it does not know) and \<open>toFloat\<close> is \<open>static_cast<float>\<close>.
\<close>

fun colorCells :: "(float64 \<Rightarrow> float32) \<Rightarrow> float64 \<times> float64 \<times> float64 \<Rightarrow> float32 list" where
  "colorCells toFloat (r, g, b) = [toFloat r, toFloat g, toFloat b]"

definition setTextureFromColormap ::
  "(string \<Rightarrow> (float64 \<times> float64 \<times> float64) list option) \<Rightarrow> (float64 \<Rightarrow> float32)
     \<Rightarrow> GLShaderProgram \<Rightarrow> string \<Rightarrow> string \<Rightarrow> bool \<Rightarrow> error + GLShaderProgram" where
  "setTextureFromColormap getColorMap toFloat p name colormapName allowUpdate =
     (case getColorMap colormapName of
        None \<Rightarrow> Inl (UnknownColormap colormapName)
      | Some values \<Rightarrow>
          (case withTexture name
                  (\<lambda>t. if t_isSet t \<and> \<not> allowUpdate then Inl TextureSetTwice
                       else if t_dim t \<noteq> 1 then Inl (MismatchedDimension (t_dim t))
                       else (let colorBuffer = concat (map (colorCells toFloat) values);
                                 owned = \<lparr>tex_dim = 1, tex_format = RGB32F,
                                          tex_sizes = [length values], tex_filter = Linear,
                                          tex_repeat = False, tex_mipmap = False,
                                          tex_data = FloatPixels colorBuffer\<rparr>
                             in Inr (t\<lparr>t_textureBufferOwned := Some owned,
                                       t_textureBuffer := Some owned, t_isSet := True\<rparr>)))
                  (sp_textures p) of
             Inl e \<Rightarrow> Inl e
           | Inr ts \<Rightarrow> Inr (p\<lparr>sp_textures := ts\<rparr>)))"

subsection \<open>Validation\<close>

text \<open>C++ integer division truncates towards zero; a \<open>static_cast<unsigned int>\<close>.\<close>

definition cdiv :: "int \<Rightarrow> int \<Rightarrow> int" where
  "cdiv a b = (if (a < 0) = (b < 0) then \<bar>a\<bar> div \<bar>b\<bar> else - (\<bar>a\<bar> div \<bar>b\<bar>))"

definition to_uint32 :: "int \<Rightarrow> nat" where
  "to_uint32 i = nat (i mod 2 ^ 32)"

fun checkUniforms :: "GLShaderUniform list \<Rightarrow> error option" where
  "checkUniforms [] = None"
| "checkUniforms (u # us) =
     (if u_location u = - 1 then checkUniforms us
      else if \<not> u_isSet u then Some (UniformNotSet (u_name u))
      else checkUniforms us)"

text \<open>
  The attribute loop carries \<open>attributeSize\<close>, which starts at \<open>- 1\<close>. A division by a
  compatibility count of 0 is undefined behaviour and is an error of the model.
\<close>

fun checkAttributes ::
  "(RenderDataType \<Rightarrow> RenderDataType \<Rightarrow> int) \<Rightarrow> int \<Rightarrow> GLShaderAttribute list \<Rightarrow> error + int" where
  "checkAttributes countCompat attributeSize [] = Inr attributeSize"
| "checkAttributes countCompat attributeSize (a # as) =
     (if a_location a = - 1 then checkAttributes countCompat attributeSize as
      else (case a_buff a of
              None \<Rightarrow> Inl (NoBufferAttached (a_name a))
            | Some buff \<Rightarrow>
                if getDataSize buff < 0 then Inl (AttributeNotSet (a_name a))
                else (let compatCount = countCompat (a_type a) (getType buff)
                      in if compatCount = 0 then Inl DivisionByZero
                         else if attributeSize = - 1
                         then checkAttributes countCompat (cdiv (getDataSize buff) compatCount) as
                         else if cdiv (getDataSize buff) compatCount \<noteq> attributeSize
                         then Inl (InconsistentSize (a_name a))
                         else checkAttributes countCompat attributeSize as)))"

fun checkTextures :: "GLShaderTexture list \<Rightarrow> error option" where
  "checkTextures [] = None"
| "checkTextures (t # ts) =
     (if t_location t = - 1 then checkTextures ts
      else if \<not> t_isSet t then Some (TextureNotSet (t_name t))
      else checkTextures ts)"

text \<open>
  \<open>validateData\<close>. \<open>INVALID_IND_32\<close> is the constant that stands for "no instance
  count", declared outside this file.
\<close>

definition validateData ::
  "nat \<Rightarrow> (RenderDataType \<Rightarrow> RenderDataType \<Rightarrow> int) \<Rightarrow> GLShaderProgram \<Rightarrow> error + GLShaderProgram" where
  "validateData INVALID_IND_32 countCompat p =
     (case checkUniforms (sp_uniforms p) of
        Some e \<Rightarrow> Inl e
      | None \<Rightarrow>
          (case checkAttributes countCompat (- 1) (sp_attributes p) of
             Inl e \<Rightarrow> Inl e
           | Inr attributeSize \<Rightarrow>
               (case checkTextures (sp_textures p) of
                  Some e \<Rightarrow> Inl e
                | None \<Rightarrow>
                    if sp_useIndex p \<and> sp_indexBuffer p = None then Inl IndexNotFilled
                    else (let p' = p\<lparr>sp_drawDataLength :=
                                (case sp_indexBuffer p of
                                   Some indexBuffer \<Rightarrow>
                                     if sp_useIndex p
                                     then to_uint32 (sp_indexSizeMult p * getDataSize indexBuffer)
                                     else to_uint32 attributeSize
                                 | None \<Rightarrow> to_uint32 attributeSize)\<rparr>
                          in if (sp_drawMode p = TrianglesInstanced \<or>
                                 sp_drawMode p = TriangleStripInstanced) \<and>
                                sp_instanceCount p = INVALID_IND_32
                             then Inl NoInstanceCount
                             else Inr p'))))"

section \<open>Engine: rules and the program cache\<close>

datatype ShaderReplacementDefaults = SceneObject | SceneObjectNoSlice | Pick | Process | None'

text \<open>
  The engine's registries, its cache and the three default rule lists. A compiled
  program lives in \<open>compiledPrograms\<close> and a shared pointer to it is its index there:
  two pointers are the same program exactly when they are the same index.
\<close>

record 'rule GLEngine =
  registeredShaderPrograms :: "string \<rightharpoonup> ShaderStageSpecification list \<times> DrawMode"
  registeredShaderRules :: "string \<rightharpoonup> 'rule"
  compiledProgamCache :: "string \<rightharpoonup> nat"
  compiledPrograms :: "GLCompiledProgram list"
  defaultRules_sceneObject :: "string list"
  defaultRules_pick :: "string list"
  defaultRules_process :: "string list"

text \<open>\<open>s.rfind(p, 0) == 0\<close>: \<open>s\<close> starts with \<open>p\<close>.\<close>

definition startsWith :: "string \<Rightarrow> string \<Rightarrow> bool" where
  "startsWith s p = (take (length p) s = p)"

definition defaultRules :: "'rule GLEngine \<Rightarrow> ShaderReplacementDefaults \<Rightarrow> string list" where
  "defaultRules e defaults =
     (case defaults of
        SceneObject \<Rightarrow> defaultRules_sceneObject e
      | SceneObjectNoSlice \<Rightarrow>
          filter (\<lambda>s. \<not> startsWith s ''SLICE_PLANE_'') (defaultRules_sceneObject e)
      | Pick \<Rightarrow> defaultRules_pick e
      | Process \<Rightarrow> defaultRules_process e
      | None' \<Rightarrow> [])"

definition programKeyFromRules ::
  "'rule GLEngine \<Rightarrow> string \<Rightarrow> string list \<Rightarrow> ShaderReplacementDefaults \<Rightarrow> string" where
  "programKeyFromRules e programName rules defaults =
     ''$PROGRAMNAME: '' @ programName @ ''#'' @
     ''  $RULES: '' @ concat (map (\<lambda>s. s @ ''# '') rules) @
     ''  $DEFAULTS: '' @ concat (map (\<lambda>s. s @ ''# '') (defaultRules e defaults))"

text \<open>
  The loop that turns rule names into rules: \<open>seen\<close> is the part of
  \<open>fullCustomRules\<close> before the iterator, which \<open>std::find\<close> searches.
\<close>

fun prepareRules ::
  "(string \<rightharpoonup> 'rule) \<Rightarrow> string list \<Rightarrow> string list \<Rightarrow> 'rule list \<Rightarrow> error + 'rule list" where
  "prepareRules reg seen [] rules = Inr rules"
| "prepareRules reg seen (ruleName # rest) rules =
     (if ruleName = '''' then prepareRules reg (seen @ [ruleName]) rest rules
      else if ruleName \<in> set seen then prepareRules reg (seen @ [ruleName]) rest rules
      else (case reg ruleName of
              None \<Rightarrow> Inl (NoShaderRule ruleName)
            | Some thisRule \<Rightarrow> prepareRules reg (seen @ [ruleName]) rest (rules @ [thisRule])))"

text \<open>
  \<open>getCompiledProgram\<close>. \<open>applyShaderReplacements\<close> is the substitution engine of
  shader\_builder, outside this file; the three driver parameters are those of the
  compiled program's constructor.
\<close>

definition getCompiledProgram ::
  "(ShaderStageSpecification list \<Rightarrow> 'rule list \<Rightarrow> error + ShaderStageSpecification list)
     \<Rightarrow> (ShaderStageSpecification list \<Rightarrow> bool) \<Rightarrow> (string \<Rightarrow> int) \<Rightarrow> (string \<Rightarrow> int)
     \<Rightarrow> 'rule GLEngine \<Rightarrow> string \<Rightarrow> string list \<Rightarrow> ShaderReplacementDefaults
     \<Rightarrow> error + nat \<times> 'rule GLEngine" where
  "getCompiledProgram applyShaderReplacements compiles uniformLocation attribLocation
       e programName customRules defaults =
     (let progKey = programKeyFromRules e programName customRules defaults
      in case compiledProgamCache e progKey of
           Some prog \<Rightarrow> Inr (prog, e)
         | None \<Rightarrow>
             (case registeredShaderPrograms e programName of
                None \<Rightarrow> Inl (NoShaderProgram programName)
              | Some (stages, dm) \<Rightarrow>
                  (let fullCustomRules = customRules @ defaultRules e defaults
                   in case prepareRules (registeredShaderRules e) [] fullCustomRules [] of
                        Inl err \<Rightarrow> Inl err
                      | Inr rules \<Rightarrow>
                          (case applyShaderReplacements stages rules of
                             Inl err \<Rightarrow> Inl err
                           | Inr updatedStages \<Rightarrow>
                               (case GLCompiledProgram_new compiles uniformLocation
                                       attribLocation updatedStages dm of
                                  Inl err \<Rightarrow> Inl err
                                | Inr cp \<Rightarrow>
                                    Inr (length (compiledPrograms e),
                                         e\<lparr>compiledPrograms := compiledPrograms e @ [cp],
                                           compiledProgamCache :=
                                             (compiledProgamCache e)
                                               (progKey \<mapsto> length (compiledPrograms e))\<rparr>))))))"

text \<open>
  Two requests in a row, the second on the engine the first one left; the result is the
  two programs they return.
\<close>

definition requestTwice ::
  "(ShaderStageSpecification list \<Rightarrow> 'rule list \<Rightarrow> error + ShaderStageSpecification list)
     \<Rightarrow> (ShaderStageSpecification list \<Rightarrow> bool) \<Rightarrow> (string \<Rightarrow> int) \<Rightarrow> (string \<Rightarrow> int)
     \<Rightarrow> 'rule GLEngine \<Rightarrow> string \<Rightarrow> string list \<Rightarrow> ShaderReplacementDefaults
     \<Rightarrow> string list \<Rightarrow> ShaderReplacementDefaults \<Rightarrow> error + nat \<times> nat" where
  "requestTwice applyShaderReplacements compiles uniformLocation attribLocation
       e programName rules1 defaults1 rules2 defaults2 =
     (case getCompiledProgram applyShaderReplacements compiles uniformLocation attribLocation
             e programName rules1 defaults1 of
        Inl err \<Rightarrow> Inl err
      | Inr (prog1, e1) \<Rightarrow>
          (case getCompiledProgram applyShaderReplacements compiles uniformLocation
                  attribLocation e1 programName rules2 defaults2 of
             Inl err \<Rightarrow> Inl err
           | Inr (prog2, e2) \<Rightarrow> Inr (prog1, prog2)))"

text \<open>
  The cache of a running engine: no two keys share a program, and every cached program
  is one of \<open>compiledPrograms\<close>.
\<close>

definition cache_ok :: "'rule GLEngine \<Rightarrow> bool" where
  "cache_ok e =
     (inj_on (compiledProgamCache e) (dom (compiledProgamCache e)) \<and>
      (\<forall>k prog. compiledProgamCache e k = Some prog \<longrightarrow> prog < length (compiledPrograms e)))"

text \<open>
  An engine for the examples: the program \<open>MESH\<close> and the rules \<open>A\<close> and \<open>B\<close> are
  registered (a rule is a number here), nothing is cached.
\<close>

definition startEngine :: "nat GLEngine" where
  "startEngine =
     \<lparr>registeredShaderPrograms = [''MESH'' \<mapsto> (meshStages, Triangles)],
      registeredShaderRules = [''A'' \<mapsto> 1, ''B'' \<mapsto> 2],
      compiledProgamCache = Map.empty,
      compiledPrograms = [],
      defaultRules_sceneObject = [], defaultRules_pick = [], defaultRules_process = []\<rparr>"

text \<open>The engine after \<open>MESH\<close> was requested once with the rule list \<open>[A]\<close>.\<close>

definition engineAfter :: "nat GLEngine" where
  "engineAfter =
     startEngine\<lparr>compiledPrograms := [meshProgram],
                 compiledProgamCache :=
                   [programKeyFromRules startEngine ''MESH'' [''A''] None' \<mapsto> 0]\<rparr>"

text \<open>
  Programs for the examples. In \<open>strippedProgram\<close> the driver gave no location to the
  uniform, the attribute and the texture. In \<open>texturedProgram\<close> the two-dimensional
  texture slot \<open>t_image\<close> has been set.
\<close>

definition strippedProgram :: GLShaderProgram where
  "strippedProgram =
     \<lparr>sp_uniforms = [\<lparr>u_name = ''u_color'', u_type = Vector3Float, u_isSet = False,
                       u_location = - 1\<rparr>],
      sp_attributes = [\<lparr>a_name = ''a_position'', a_type = Vector3Float, a_arrayCount = 1,
                         a_location = - 1, a_buff = None\<rparr>],
      sp_textures = [\<lparr>t_name = ''t_image'', t_dim = 2, t_index = 0, t_isSet = False,
                       t_textureBuffer = None, t_textureBufferOwned = None,
                       t_location = - 1\<rparr>],
      sp_drawMode = Triangles, sp_useIndex = False, sp_indexBuffer = None,
      sp_indexSizeMult = 1, sp_instanceCount = 4294967295, sp_drawDataLength = 0\<rparr>"

definition imageTexture :: GLTextureBuffer where
  "imageTexture =
     \<lparr>tex_dim = 2, tex_format = RGB8, tex_sizes = [1, 1], tex_filter = Nearest,
      tex_repeat = False, tex_mipmap = False, tex_data = BytePixels [255, 0, 0]\<rparr>"

definition otherTexture :: GLTextureBuffer where
  "otherTexture =
     \<lparr>tex_dim = 2, tex_format = RGB8, tex_sizes = [1, 1], tex_filter = Nearest,
      tex_repeat = False, tex_mipmap = False, tex_data = BytePixels [0, 0, 255]\<rparr>"

definition imageSlot :: GLShaderTexture where
  "imageSlot =
     \<lparr>t_name = ''t_image'', t_dim = 2, t_index = 0, t_isSet = True,
      t_textureBuffer = Some imageTexture, t_textureBufferOwned = None, t_location = 3\<rparr>"

definition texturedProgram :: GLShaderProgram where
  "texturedProgram = strippedProgram\<lparr>sp_textures := [imageSlot]\<rparr>"

text \<open>
  What \<open>validateData\<close> asks of one attribute: a buffer with data and a compatibility
  count that is not 0. Its length is the buffer's data size divided by that count.
\<close>

definition attributeReady ::
  "(RenderDataType \<Rightarrow> RenderDataType \<Rightarrow> int) \<Rightarrow> GLShaderAttribute \<Rightarrow> bool" where
  "attributeReady countCompat a =
     (case a_buff a of
        None \<Rightarrow> False
      | Some buff \<Rightarrow> 0 \<le> getDataSize buff \<and> countCompat (a_type a) (getType buff) \<noteq> 0)"

definition attributeLength ::
  "(RenderDataType \<Rightarrow> RenderDataType \<Rightarrow> int) \<Rightarrow> GLShaderAttribute \<Rightarrow> int" where
  "attributeLength countCompat a =
     (case a_buff a of
        None \<Rightarrow> 0
      | Some buff \<Rightarrow> cdiv (getDataSize buff) (countCompat (a_type a) (getType buff)))"

text \<open>
  The example scenario of the specification: one attribute \<open>a_position\<close> holding three
  vectors, one uniform \<open>u_color\<close> that is set, draw mode Triangles.
\<close>

definition positions :: GLAttributeBuffer where
  "positions =
     \<lparr>dataType = Vector3Float, arrayCount = 1, dataSize = 3, bufferSize = 3, setFlag = True,
      store = map Bits [0, 0, 0, 1, 0, 0, 0, 1, 0]\<rparr>"

definition triangleProgram :: GLShaderProgram where
  "triangleProgram =
     \<lparr>sp_uniforms = [\<lparr>u_name = ''u_color'', u_type = Vector3Float, u_isSet = True,
                       u_location = 0\<rparr>],
      sp_attributes = [\<lparr>a_name = ''a_position'', a_type = Vector3Float, a_arrayCount = 1,
                         a_location = 0, a_buff = Some positions\<rparr>],
      sp_textures = [],
      sp_drawMode = Triangles, sp_useIndex = False, sp_indexBuffer = None,
      sp_indexSizeMult = 1, sp_instanceCount = 4294967295, sp_drawDataLength = 0\<rparr>"

section \<open>Properties of the attribute buffer\<close>








lemma replicate_numeral: "replicate (numeral n) x = x # replicate (pred_numeral n) x"
  by (simp add: numeral_eq_Suc)

lemma chunks_numeral:
  "chunks k (numeral n) cs = take k cs # chunks k (pred_numeral n) (drop k cs)"
  by (simp add: numeral_eq_Suc)

lemmas buffer_eval = setData_vec2_def setData_vec3_def setData_vec3x2_def
  setData_vec3x3_def setData_vec3x4_def setData_vec4_def setData_float_def setData_double_def
  setData_int32_def setData_uint32_def setData_uvec2_def setData_uvec3_def setData_uvec4_def
  setData_helper_def checkType_def checkArray_def isSet_def getType_def getDataSize_def
  getArrayCount_def to_int64_def to_size_t_def u64_def glBufferData_def glBufferSubData_def
  glGetBufferSubData_def Let_def encArr2_def encArr3_def encArr4_def
  getData_helper_def getDataRange_helper_def
  getData_float_def getData_vec2_def getData_vec3_def getData_vec4_def getData_int_def
  getData_uint32_def getData_uvec2_def getData_uvec3_def getData_uvec4_def
  getDataRange_float_def getDataRange_double_def getDataRange_vec2_def getDataRange_vec3_def
  getDataRange_vec4_def getDataRange_int_def getDataRange_uint32_def getDataRange_uvec2_def
  getDataRange_uvec3_def getDataRange_uvec4_def



subsection \<open>Writing, then reading the range back\<close>




























subsection \<open>Bounds of the getters\<close>

text \<open>
  Claim C6, as the code has it. A getter whose type check passes throws "bad getData"
  exactly when the buffer was never written or the request leaves the bound
  \<open>dataSize * arrayCount\<close>, taken as a size\_t: a point read when the index reaches the
  bound, a range read when \<open>start + count\<close>, a size\_t sum, exceeds it; it throws
  nothing else. For array count 1 the bound is the logical length.
\<close>

theorem getData_out_of_bounds:
  "(getData g b ind \<noteq> Inl BadGetDataType \<longrightarrow>
      (getData g b ind = Inl BadGetData
         \<longleftrightarrow> \<not> setFlag b \<or> to_size_t (dataSize b * arrayCount b) \<le> ind) \<and>
      (isl (getData g b ind) \<longrightarrow> getData g b ind = Inl BadGetData)) \<and>
   (getDataRange g b start count \<noteq> Inl BadGetDataType \<longrightarrow>
      (getDataRange g b start count = Inl BadGetData
         \<longleftrightarrow> \<not> setFlag b \<or> to_size_t (dataSize b * arrayCount b) < u64 (start + count)) \<and>
      (isl (getDataRange g b start count) \<longrightarrow> getDataRange g b start count = Inl BadGetData)) \<and>
   (arrayCount b = 1 \<and> 0 \<le> dataSize b \<and> dataSize b < 2 ^ 64 \<longrightarrow>
      to_size_t (dataSize b * arrayCount b) = nat (dataSize b))"
proof -
  have point: "getData_helper k b ind = Inl BadGetData
      \<longleftrightarrow> \<not> setFlag b \<or> to_size_t (dataSize b * arrayCount b) \<le> ind"
    "isl (getData_helper k b ind) \<longrightarrow> getData_helper k b ind = Inl BadGetData" for k
    by (auto simp: getData_helper_def isSet_def getDataSize_def getArrayCount_def
        split: option.splits)
  have range: "getDataRange_helper k b start count = Inl BadGetData
      \<longleftrightarrow> \<not> setFlag b \<or> to_size_t (dataSize b * arrayCount b) < u64 (start + count)"
    "isl (getDataRange_helper k b start count)
       \<longrightarrow> getDataRange_helper k b start count = Inl BadGetData" for k
    by (auto simp: getDataRange_helper_def isSet_def getDataSize_def getArrayCount_def
        split: option.splits)
  have c1: "getData g b ind \<noteq> Inl BadGetDataType \<longrightarrow>
      (getData g b ind = Inl BadGetData
         \<longleftrightarrow> \<not> setFlag b \<or> to_size_t (dataSize b * arrayCount b) \<le> ind) \<and>
      (isl (getData g b ind) \<longrightarrow> getData g b ind = Inl BadGetData)"
    by (cases g) (simp_all add: getData_float_def getData_vec2_def getData_vec3_def
        getData_vec4_def getData_int_def getData_uint32_def getData_uvec2_def getData_uvec3_def
        getData_uvec4_def point)
  have c2: "getDataRange g b start count \<noteq> Inl BadGetDataType \<longrightarrow>
      (getDataRange g b start count = Inl BadGetData
         \<longleftrightarrow> \<not> setFlag b \<or> to_size_t (dataSize b * arrayCount b) < u64 (start + count)) \<and>
      (isl (getDataRange g b start count) \<longrightarrow> getDataRange g b start count = Inl BadGetData)"
    by (cases g) (simp_all add: getDataRange_float_def getDataRange_vec2_def
        getDataRange_vec3_def getDataRange_vec4_def getDataRange_int_def getDataRange_uint32_def
        getDataRange_uvec2_def getDataRange_uvec3_def getDataRange_uvec4_def range)
  have c3: "arrayCount b = 1 \<and> 0 \<le> dataSize b \<and> dataSize b < 2 ^ 64 \<longrightarrow>
      to_size_t (dataSize b * arrayCount b) = nat (dataSize b)"
    by (simp add: to_size_t_def)
  from c1 c2 c3 show ?thesis by blast
qed

theorem getData_out_of_bounds_witness:
  "getData As_float narrowedFloats 2 \<noteq> Inl BadGetDataType \<and>
   to_size_t (dataSize narrowedFloats * arrayCount narrowedFloats) = 2 \<and>
   getData As_float narrowedFloats 2 = Inl BadGetData \<and>
   getData As_float narrowedFloats 1 = Inr [Bits 8] \<and>
   getData As_float floatBuffer 0 = Inl BadGetData \<and>
   getDataRange As_float narrowedFloats 1 2 = Inl BadGetData \<and>
   getDataRange As_float narrowedFloats 1 1 = Inr [[Bits 8]]"
proof -
  have h: "getData As_float narrowedFloats 2 \<noteq> Inl BadGetDataType"
    by (simp add: narrowedFloats_def getData_float_def getType_def getData_helper_def
        split: option.splits)
  have bound: "to_size_t (dataSize narrowedFloats * arrayCount narrowedFloats) = 2"
    by (simp add: narrowedFloats_def to_size_t_def)
  from getData_out_of_bounds [of As_float narrowedFloats 2, THEN conjunct1, rule_format, OF h]
  have "getData As_float narrowedFloats 2 = Inl BadGetData
          \<longleftrightarrow> \<not> setFlag narrowedFloats \<or>
              to_size_t (dataSize narrowedFloats * arrayCount narrowedFloats) \<le> 2"
    by (rule conjunct1)
  then have e1: "getData As_float narrowedFloats 2 = Inl BadGetData"
    by (simp only: bound) simp
  have e2: "getData As_float narrowedFloats 1 = Inr [Bits 8]"
    by (simp add: narrowedFloats_def buffer_eval)
  have e3: "getData As_float floatBuffer 0 = Inl BadGetData"
    by (simp add: floatBuffer_def buffer_eval)
  have e4: "getDataRange As_float narrowedFloats 1 2 = Inl BadGetData"
    by (simp add: narrowedFloats_def buffer_eval)
  have e5: "getDataRange As_float narrowedFloats 1 1 = Inr [[Bits 8]]"
    by (simp add: narrowedFloats_def buffer_eval)
  from h bound e1 e2 e3 e4 e5 show ?thesis by (intro conjI)
qed

text \<open>
  Claim C6 as stated fails where the array count is not 1: after one
  \<open>std::array<vec3, 3>\<close> was written the logical length is 1, and the point read at
  index 2 and the range read of 2 from 1 both succeed.
\<close>

theorem getData_beyond_logical_length:
  "setData_vec3x3 vec3x3Buffer [((1, 2, 3), (4, 5, 6), (7, 8, 9))] = Inr vec3x3Written \<and>
   dataSize vec3x3Written = 1 \<and>
   getData As_vec3 vec3x3Written 2 = Inr [Bits 7, Bits 8, Bits 9] \<and>
   getDataRange As_vec3 vec3x3Written 1 2 = Inr [[Bits 4, Bits 5, Bits 6], [Bits 7, Bits 8, Bits 9]]"
  by (simp add: vec3x3Buffer_def vec3x3Written_def buffer_eval replicate_numeral chunks_numeral)

subsection \<open>The type checks of the unsigned vector getters\<close>

text \<open>
  Claim C10. \<open>getData_uvec2\<close>, \<open>getData_uvec3\<close> and \<open>getData_uvec4\<close> throw the
  type error exactly when the buffer's type is not Vector2Float, Vector3Float,
  Vector4Float; on a written buffer and an index inside the bound they succeed exactly
  for that type. On a buffer of the unsigned vector type they always throw the type
  error, while \<open>getDataRange_uvec2/3/4\<close> throw it exactly when the type is not the
  unsigned one.
\<close>

theorem getData_uvec_type_check:
  "(getData_uvec2 b ind = Inl BadGetDataType \<longleftrightarrow> dataType b \<noteq> Vector2Float) \<and>
   (getData_uvec3 b ind = Inl BadGetDataType \<longleftrightarrow> dataType b \<noteq> Vector3Float) \<and>
   (getData_uvec4 b ind = Inl BadGetDataType \<longleftrightarrow> dataType b \<noteq> Vector4Float) \<and>
   (setFlag b \<and> ind < to_size_t (dataSize b * arrayCount b) \<longrightarrow>
      (isl (getData_uvec2 b ind) \<longleftrightarrow> dataType b \<noteq> Vector2Float) \<and>
      (isl (getData_uvec3 b ind) \<longleftrightarrow> dataType b \<noteq> Vector3Float) \<and>
      (isl (getData_uvec4 b ind) \<longleftrightarrow> dataType b \<noteq> Vector4Float)) \<and>
   (dataType b = Vector2UInt \<longrightarrow> getData_uvec2 b ind = Inl BadGetDataType) \<and>
   (dataType b = Vector3UInt \<longrightarrow> getData_uvec3 b ind = Inl BadGetDataType) \<and>
   (dataType b = Vector4UInt \<longrightarrow> getData_uvec4 b ind = Inl BadGetDataType) \<and>
   (getDataRange_uvec2 b start count = Inl BadGetDataType \<longleftrightarrow> dataType b \<noteq> Vector2UInt) \<and>
   (getDataRange_uvec3 b start count = Inl BadGetDataType \<longleftrightarrow> dataType b \<noteq> Vector3UInt) \<and>
   (getDataRange_uvec4 b start count = Inl BadGetDataType \<longleftrightarrow> dataType b \<noteq> Vector4UInt)"
  by (auto simp: getData_uvec2_def getData_uvec3_def getData_uvec4_def getData_helper_def
      getDataRange_uvec2_def getDataRange_uvec3_def getDataRange_uvec4_def
      getDataRange_helper_def getType_def isSet_def getDataSize_def getArrayCount_def
      split: option.splits)

theorem getData_uvec_type_check_witness:
  "dataType uvec2Written = Vector2UInt \<and>
   getData_uvec2 uvec2Written 0 = Inl BadGetDataType \<and>
   getDataRange_uvec2 uvec2Written 0 1 = Inr [[Bits 1, Bits 2]] \<and>
   getData_uvec2 (uvec2Written\<lparr>dataType := Vector2Float\<rparr>) 0 = Inr [Bits 1, Bits 2]"
proof -
  have h: "dataType uvec2Written = Vector2UInt" by (simp add: uvec2Written_def)
  have e1: "getData_uvec2 uvec2Written 0 = Inl BadGetDataType"
    by (rule getData_uvec_type_check [of uvec2Written 0, THEN conjunct2, THEN conjunct2,
          THEN conjunct2, THEN conjunct2, THEN conjunct1, rule_format, OF h])
  have e2: "getDataRange_uvec2 uvec2Written 0 1 = Inr [[Bits 1, Bits 2]]"
    by (simp add: uvec2Written_def buffer_eval)
  have e3: "getData_uvec2 (uvec2Written\<lparr>dataType := Vector2Float\<rparr>) 0 = Inr [Bits 1, Bits 2]"
    by (simp add: uvec2Written_def buffer_eval)
  from h e1 e2 e3 show ?thesis by (intro conjI)
qed

section \<open>Properties of the compiled program\<close>

lemma find_distinct_name:
  assumes "distinct (map f xs)" "v \<in> set xs" "f v = n"
  shows "find (\<lambda>u. f u = n) xs = Some v"
  using assms by (induction xs) (auto simp: image_iff)



lemma addUniqueUniform_conflict:
  assumes "distinct (map u_name us)" "v \<in> set us" "u_name v = su_name n" "u_type v \<noteq> su_type n"
  shows "isl (addUniqueUniform us n)"
  using find_distinct_name [OF assms(1) assms(2) assms(3)] assms(4)
  by (simp add: addUniqueUniform_def)







lemma addUniqueAttribute_conflict:
  assumes "distinct (map a_name us)" "v \<in> set us" "a_name v = sa_name n" "a_type v \<noteq> sa_type n"
  shows "isl (addUniqueAttribute us n)"
  using find_distinct_name [OF assms(1) assms(2) assms(3)] assms(4)
  by (simp add: addUniqueAttribute_def)







lemma addUniqueTexture_conflict:
  assumes "distinct (map t_name us)" "v \<in> set us" "t_name v = st_name n" "t_dim v \<noteq> st_dim n"
  shows "isl (addUniqueTexture us n)"
  using find_distinct_name [OF assms(1) assms(2) assms(3)] assms(4)
  by (simp add: addUniqueTexture_def)











lemmas program_eval = GLCompiledProgram_new_def setDataLocations_def addUniqueUniform_def
  addUniqueAttribute_def addUniqueTexture_def allUniforms_def allAttributes_def allTextures_def


section \<open>Properties of the engine\<close>

lemma remdups_snoc: "remdups (xs @ [x]) = remdups (filter (\<lambda>y. y \<noteq> x) xs) @ [x]"
  by (induction xs) auto

lemma firstOcc_Cons:
  "rev (remdups (rev (x # xs))) = x # rev (remdups (rev (filter (\<lambda>y. y \<noteq> x) xs)))"
  by (simp add: remdups_snoc rev_filter)

lemma prepareRules_Inr:
  "prepareRules reg seen rest rules = Inr out \<Longrightarrow>
     map Some out = map Some rules
       @ map reg (rev (remdups (rev (filter (\<lambda>n. n \<noteq> [] \<and> n \<notin> set seen) rest))))"
proof (induction rest arbitrary: seen rules)
  case Nil
  then show ?case by simp
next
  case (Cons n rest)
  show ?case
  proof (cases "n = [] \<or> n \<in> set seen")
    case True
    then have f: "filter (\<lambda>m. m \<noteq> [] \<and> m \<notin> set (seen @ [n])) rest
                  = filter (\<lambda>m. m \<noteq> [] \<and> m \<notin> set seen) rest"
      by (intro filter_cong) auto
    from True Cons.prems have "prepareRules reg (seen @ [n]) rest rules = Inr out"
      by (auto split: if_splits)
    from Cons.IH [OF this] True show ?thesis by (simp only: f) auto
  next
    case False
    with Cons.prems obtain r where r: "reg n = Some r"
      and run: "prepareRules reg (seen @ [n]) rest (rules @ [r]) = Inr out"
      by (auto split: option.splits)
    have f: "filter (\<lambda>m. m \<noteq> [] \<and> m \<notin> set (seen @ [n])) rest
             = filter (\<lambda>y. y \<noteq> n) (filter (\<lambda>m. m \<noteq> [] \<and> m \<notin> set seen) rest)"
      by (simp add: conj_commute conj_left_commute)
    from False have "filter (\<lambda>m. m \<noteq> [] \<and> m \<notin> set seen) (n # rest)
             = n # filter (\<lambda>m. m \<noteq> [] \<and> m \<notin> set seen) rest" by simp
    then have "rev (remdups (rev (filter (\<lambda>m. m \<noteq> [] \<and> m \<notin> set seen) (n # rest))))
             = n # rev (remdups (rev (filter (\<lambda>y. y \<noteq> n)
                          (filter (\<lambda>m. m \<noteq> [] \<and> m \<notin> set seen) rest))))"
      by (simp only: firstOcc_Cons)
    with Cons.IH [OF run] r f show ?thesis by simp
  qed
qed

lemma prepareRules_Inl:
  "find (\<lambda>n. n \<noteq> [] \<and> n \<notin> set seen \<and> reg n = None) rest = Some n \<Longrightarrow>
     prepareRules reg seen rest rules = Inl (NoShaderRule n)"
proof (induction rest arbitrary: seen rules)
  case Nil
  then show ?case by simp
next
  case (Cons m rest)
  show ?case
  proof (cases "m = [] \<or> m \<in> set seen")
    case True
    with Cons.prems have "find (\<lambda>n. n \<noteq> [] \<and> n \<notin> set seen \<and> reg n = None) rest = Some n"
      by (auto split: if_splits)
    moreover have "(\<lambda>n. n \<noteq> [] \<and> n \<notin> set seen \<and> reg n = None)
                   = (\<lambda>n. n \<noteq> [] \<and> n \<notin> set (seen @ [m]) \<and> reg n = None)"
      using True by auto
    ultimately have "find (\<lambda>n. n \<noteq> [] \<and> n \<notin> set (seen @ [m]) \<and> reg n = None) rest = Some n"
      by simp
    from Cons.IH [OF this] True show ?thesis by auto
  next
    case False
    show ?thesis
    proof (cases "reg m")
      case None
      with False Cons.prems show ?thesis by simp
    next
      case (Some r)
      with False Cons.prems
      have fs: "find (\<lambda>n. n \<noteq> [] \<and> n \<notin> set seen \<and> reg n = None) rest = Some n" by simp
      then have "reg n = None" by (auto simp: find_Some_iff)
      with Some have "n \<noteq> m" by auto
      have "find (\<lambda>n. n \<noteq> [] \<and> n \<notin> set (seen @ [m]) \<and> reg n = None) rest
            = find (\<lambda>n. n \<noteq> [] \<and> n \<notin> set seen \<and> reg n = None) rest"
        by (rule find_cong) (use Some in auto)
      with fs have "find (\<lambda>n. n \<noteq> [] \<and> n \<notin> set (seen @ [m]) \<and> reg n = None) rest = Some n"
        by simp
      from Cons.IH [OF this] False Some show ?thesis by simp
    qed
  qed
qed

lemma prepareRules_total:
  "find (\<lambda>n. n \<noteq> [] \<and> n \<notin> set seen \<and> reg n = None) rest = None \<Longrightarrow>
     \<exists>out. prepareRules reg seen rest rules = Inr out"
proof (induction rest arbitrary: seen rules)
  case Nil
  then show ?case by simp
next
  case (Cons m rest)
  from Cons.prems have all: "\<forall>n\<in>set (m # rest). \<not> (n \<noteq> [] \<and> n \<notin> set seen \<and> reg n = None)"
    by (simp only: find_None_iff) auto
  then have "find (\<lambda>n. n \<noteq> [] \<and> n \<notin> set (seen @ [m]) \<and> reg n = None) rest = None"
    by (auto simp: find_None_iff)
  from Cons.IH [OF this] all show ?case by (auto split: option.splits)
qed

text \<open>
  Claim C7. The rules the loop collects are the registered rules of the non-empty names,
  each name once, in the order of the names' first occurrences; the loop succeeds when
  every non-empty name is registered and otherwise throws for the first non-empty name
  that is not. On a cache miss \<open>getCompiledProgram\<close> throws that error too and, when it
  succeeds, has handed exactly that rule list to \<open>applyShaderReplacements\<close>.
\<close>

theorem prepareRules_first_occurrences:
  "(prepareRules reg [] names [] = Inr rules \<longrightarrow>
      map Some rules = map reg (rev (remdups (rev (filter (\<lambda>n. n \<noteq> []) names))))) \<and>
   (find (\<lambda>n. n \<noteq> [] \<and> reg n = None) names = None \<longrightarrow>
      (\<exists>out. prepareRules reg [] names [] = Inr out)) \<and>
   (find (\<lambda>n. n \<noteq> [] \<and> reg n = None) names = Some n \<longrightarrow>
      prepareRules reg [] names [] = Inl (NoShaderRule n)) \<and>
   (compiledProgamCache e (programKeyFromRules e programName customRules defaults) = None \<and>
    registeredShaderPrograms e programName = Some (stages, dm) \<and>
    find (\<lambda>n. n \<noteq> [] \<and> registeredShaderRules e n = None) (customRules @ defaultRules e defaults)
      = Some n \<longrightarrow>
      getCompiledProgram applyShaderReplacements compiles uniformLocation attribLocation
        e programName customRules defaults = Inl (NoShaderRule n)) \<and>
   (compiledProgamCache e (programKeyFromRules e programName customRules defaults) = None \<and>
    getCompiledProgram applyShaderReplacements compiles uniformLocation attribLocation
        e programName customRules defaults = Inr (prog, e') \<longrightarrow>
      (\<exists>stages dm applied updatedStages cp.
         registeredShaderPrograms e programName = Some (stages, dm) \<and>
         map Some applied = map (registeredShaderRules e)
           (rev (remdups (rev (filter (\<lambda>n. n \<noteq> []) (customRules @ defaultRules e defaults))))) \<and>
         applyShaderReplacements stages applied = Inr updatedStages \<and>
         GLCompiledProgram_new compiles uniformLocation attribLocation updatedStages dm = Inr cp \<and>
         compiledPrograms e' ! prog = cp))"
proof -
  have a: "prepareRules reg [] names [] = Inr rules \<longrightarrow>
      map Some rules = map reg (rev (remdups (rev (filter (\<lambda>n. n \<noteq> []) names))))" for reg names
       and rules :: "'x list"
    using prepareRules_Inr [of reg "[]" names "[]" rules] by simp
  have b: "find (\<lambda>n. n \<noteq> [] \<and> reg n = None) names = None \<longrightarrow>
      (\<exists>out. prepareRules reg [] names [] = Inr out)"
    using prepareRules_total [of "[]" reg names "[]"] by simp
  have c: "find (\<lambda>n. n \<noteq> [] \<and> reg n = None) names = Some n \<longrightarrow>
      prepareRules reg [] names [] = Inl (NoShaderRule n)" for reg :: "string \<rightharpoonup> 'y" and names
    using prepareRules_Inl [of "[]" reg names n "[]"] by simp
  have d: "compiledProgamCache e (programKeyFromRules e programName customRules defaults) = None \<and>
    registeredShaderPrograms e programName = Some (stages, dm) \<and>
    find (\<lambda>n. n \<noteq> [] \<and> registeredShaderRules e n = None) (customRules @ defaultRules e defaults)
      = Some n \<longrightarrow>
      getCompiledProgram applyShaderReplacements compiles uniformLocation attribLocation
        e programName customRules defaults = Inl (NoShaderRule n)"
    using c [of "registeredShaderRules e" "customRules @ defaultRules e defaults"]
    by (auto simp: getCompiledProgram_def Let_def)
  have e: "compiledProgamCache e (programKeyFromRules e programName customRules defaults) = None \<and>
    getCompiledProgram applyShaderReplacements compiles uniformLocation attribLocation
        e programName customRules defaults = Inr (prog, e') \<longrightarrow>
      (\<exists>stages dm applied updatedStages cp.
         registeredShaderPrograms e programName = Some (stages, dm) \<and>
         map Some applied = map (registeredShaderRules e)
           (rev (remdups (rev (filter (\<lambda>n. n \<noteq> []) (customRules @ defaultRules e defaults))))) \<and>
         applyShaderReplacements stages applied = Inr updatedStages \<and>
         GLCompiledProgram_new compiles uniformLocation attribLocation updatedStages dm = Inr cp \<and>
         compiledPrograms e' ! prog = cp)"
  proof (intro impI, elim conjE)
    assume miss: "compiledProgamCache e (programKeyFromRules e programName customRules defaults) = None"
      and run: "getCompiledProgram applyShaderReplacements compiles uniformLocation attribLocation
        e programName customRules defaults = Inr (prog, e')"
    from run miss obtain stages dm where
      reg: "registeredShaderPrograms e programName = Some (stages, dm)"
      by (auto simp: getCompiledProgram_def Let_def split: option.splits)
    from run miss reg obtain applied where
      pr: "prepareRules (registeredShaderRules e) [] (customRules @ defaultRules e defaults) []
             = Inr applied"
      by (auto simp: getCompiledProgram_def Let_def split: sum.splits)
    from run miss reg pr obtain updatedStages where
      ap: "applyShaderReplacements stages applied = Inr updatedStages"
      by (auto simp: getCompiledProgram_def Let_def split: sum.splits)
    from run miss reg pr ap obtain cp where
      cp: "GLCompiledProgram_new compiles uniformLocation attribLocation updatedStages dm = Inr cp"
      and res: "prog = length (compiledPrograms e)" "compiledPrograms e' = compiledPrograms e @ [cp]"
      by (auto simp: getCompiledProgram_def Let_def split: sum.splits)
    from a [of "registeredShaderRules e" "customRules @ defaultRules e defaults" applied] pr
    have "map Some applied = map (registeredShaderRules e)
           (rev (remdups (rev (filter (\<lambda>n. n \<noteq> []) (customRules @ defaultRules e defaults)))))"
      by simp
    with reg ap cp res show "\<exists>stages dm applied updatedStages cp.
         registeredShaderPrograms e programName = Some (stages, dm) \<and>
         map Some applied = map (registeredShaderRules e)
           (rev (remdups (rev (filter (\<lambda>n. n \<noteq> []) (customRules @ defaultRules e defaults))))) \<and>
         applyShaderReplacements stages applied = Inr updatedStages \<and>
         GLCompiledProgram_new compiles uniformLocation attribLocation updatedStages dm = Inr cp \<and>
         compiledPrograms e' ! prog = cp"
      by auto
  qed
  from a [of reg names rules] b c [of reg names] d e show ?thesis by (intro conjI)
qed

theorem prepareRules_first_occurrences_witness:
  "prepareRules [''A'' \<mapsto> 1, ''B'' \<mapsto> 2] [] [''B'', '''', ''A'', ''B''] [] = Inr [2, 1 :: nat] \<and>
   map Some [2, 1 :: nat]
     = map [''A'' \<mapsto> 1, ''B'' \<mapsto> 2]
         (rev (remdups (rev (filter (\<lambda>n. n \<noteq> []) [''B'', '''', ''A'', ''B''])))) \<and>
   find (\<lambda>n. n \<noteq> [] \<and> [''A'' \<mapsto> 1 :: nat, ''B'' \<mapsto> 2] n = None) [''A'', ''X'', ''Y'']
     = Some ''X'' \<and>
   prepareRules [''A'' \<mapsto> 1 :: nat, ''B'' \<mapsto> 2] [] [''A'', ''X'', ''Y''] []
     = Inl (NoShaderRule ''X'')"
proof -
  have run: "prepareRules [''A'' \<mapsto> 1, ''B'' \<mapsto> 2] [] [''B'', '''', ''A'', ''B''] []
               = Inr [2, 1 :: nat]"
    by simp
  note r1 = prepareRules_first_occurrences [THEN conjunct1, rule_format, OF run]
  have bad: "find (\<lambda>n. n \<noteq> [] \<and> [''A'' \<mapsto> 1 :: nat, ''B'' \<mapsto> 2] n = None) [''A'', ''X'', ''Y'']
               = Some ''X''"
    by simp
  note r2 = prepareRules_first_occurrences
    [THEN conjunct2, THEN conjunct2, THEN conjunct1, rule_format, OF bad]
  from run r1 bad r2 show ?thesis by (intro conjI)
qed

subsection \<open>The program cache\<close>

lemma programKeyFromRules_frame:
  "defaultRules_sceneObject e' = defaultRules_sceneObject e \<Longrightarrow>
   defaultRules_pick e' = defaultRules_pick e \<Longrightarrow>
   defaultRules_process e' = defaultRules_process e \<Longrightarrow>
   programKeyFromRules e' n r d = programKeyFromRules e n r d"
  by (cases d) (simp_all add: programKeyFromRules_def defaultRules_def)

lemma getCompiledProgram_cases:
  assumes "getCompiledProgram ap co ul al e n r d = Inr (prog, e')"
  shows "(compiledProgamCache e (programKeyFromRules e n r d) = Some prog \<and> e' = e) \<or>
         (compiledProgamCache e (programKeyFromRules e n r d) = None \<and>
          prog = length (compiledPrograms e) \<and>
          (\<exists>cp. e' = e\<lparr>compiledPrograms := compiledPrograms e @ [cp],
                        compiledProgamCache :=
                          (compiledProgamCache e)(programKeyFromRules e n r d \<mapsto> prog)\<rparr>))"
proof (cases "compiledProgamCache e (programKeyFromRules e n r d)")
  case (Some h)
  with assms show ?thesis by (simp add: getCompiledProgram_def Let_def)
next
  case None
  from assms None obtain stages dm where
    reg: "registeredShaderPrograms e n = Some (stages, dm)"
    by (auto simp: getCompiledProgram_def Let_def split: option.splits)
  from assms None reg obtain applied where
    pr: "prepareRules (registeredShaderRules e) [] (r @ defaultRules e d) [] = Inr applied"
    by (auto simp: getCompiledProgram_def Let_def split: sum.splits)
  from assms None reg pr obtain updatedStages where
    ap: "ap stages applied = Inr updatedStages"
    by (auto simp: getCompiledProgram_def Let_def split: sum.splits)
  from assms None reg pr ap obtain cp where
    "prog = length (compiledPrograms e)"
    "e' = e\<lparr>compiledPrograms := compiledPrograms e @ [cp],
              compiledProgamCache :=
                (compiledProgamCache e)(programKeyFromRules e n r d \<mapsto> length (compiledPrograms e))\<rparr>"
    by (auto simp: getCompiledProgram_def Let_def split: sum.splits)
  with None show ?thesis by auto
qed

lemma getCompiledProgram_key:
  assumes "getCompiledProgram ap co ul al e n r d = Inr (prog, e')"
  shows "programKeyFromRules e' = programKeyFromRules e"
proof -
  from getCompiledProgram_cases [OF assms]
  have "defaultRules_sceneObject e' = defaultRules_sceneObject e"
    "defaultRules_pick e' = defaultRules_pick e"
    "defaultRules_process e' = defaultRules_process e" by auto
  then show ?thesis by (intro ext programKeyFromRules_frame)
qed

lemma getCompiledProgram_cached:
  assumes "getCompiledProgram ap co ul al e n r d = Inr (prog, e')"
  shows "compiledProgamCache e' (programKeyFromRules e n r d) = Some prog"
  using getCompiledProgram_cases [OF assms] by auto

lemma inj_on_map_upd_fresh:
  assumes inj: "inj_on m (dom m)" and fresh: "\<And>k' h. m k' = Some h \<Longrightarrow> h \<noteq> v"
  shows "inj_on (m(k \<mapsto> v)) (dom (m(k \<mapsto> v)))"
proof (rule inj_onI)
  fix x y
  assume x: "x \<in> dom (m(k \<mapsto> v))" and y: "y \<in> dom (m(k \<mapsto> v))"
    and eq: "(m(k \<mapsto> v)) x = (m(k \<mapsto> v)) y"
  consider "x = k" "y = k" | "x = k" "y \<noteq> k" | "x \<noteq> k" "y = k" | "x \<noteq> k" "y \<noteq> k"
    by blast
  then show "x = y"
  proof cases
    case 1
    then show ?thesis by simp
  next
    case 2
    with eq have "m y = Some v" by simp
    with fresh show ?thesis by blast
  next
    case 3
    with eq have "m x = Some v" by simp
    with fresh show ?thesis by blast
  next
    case 4
    with eq have e: "m x = m y" by simp
    from 4 x y have "x \<in> dom m" "y \<in> dom m" by auto
    with inj e show ?thesis by (rule inj_onD)
  qed
qed

lemma getCompiledProgram_cache_ok:
  assumes run: "getCompiledProgram ap co ul al e n r d = Inr (prog, e')" and ok: "cache_ok e"
  shows "cache_ok e'"
  using getCompiledProgram_cases [OF run]
proof (elim disjE conjE exE)
  assume "e' = e"
  with ok show ?thesis by simp
next
  fix cp
  define k where "k = programKeyFromRules e n r d"
  assume p: "prog = length (compiledPrograms e)"
    and e': "e' = e\<lparr>compiledPrograms := compiledPrograms e @ [cp],
                    compiledProgamCache :=
                      (compiledProgamCache e)(programKeyFromRules e n r d \<mapsto> prog)\<rparr>"
  from ok have inj: "inj_on (compiledProgamCache e) (dom (compiledProgamCache e))"
    and lt: "\<And>k h. compiledProgamCache e k = Some h \<Longrightarrow> h < length (compiledPrograms e)"
    unfolding cache_ok_def by blast+
  have fresh: "\<And>k' h. compiledProgamCache e k' = Some h \<Longrightarrow> h \<noteq> prog"
    using lt p by fastforce
  have c: "compiledProgamCache e' = (compiledProgamCache e)(k \<mapsto> prog)"
    and l: "compiledPrograms e' = compiledPrograms e @ [cp]"
    by (simp_all add: e' k_def)
  have i: "inj_on (compiledProgamCache e') (dom (compiledProgamCache e'))"
    unfolding c by (rule inj_on_map_upd_fresh [OF inj fresh])
  have b: "h < length (compiledPrograms e')" if "compiledProgamCache e' k' = Some h" for k' h
  proof (cases "k' = k")
    case True
    with that c p l show ?thesis by simp
  next
    case False
    with that c have "compiledProgamCache e k' = Some h" by simp
    from lt [OF this] l show ?thesis by simp
  qed
  from i b show ?thesis unfolding cache_ok_def by blast
qed

text \<open>
  Claim C1, as the code has it. A request that succeeded, made again with the same
  program name, the same rule list and the same defaults, returns the same program and
  leaves the engine as it is. On an engine whose cache is sound, two successful requests
  in a row return the same program exactly when their keys are equal. The key is the
  program name, the rule names as supplied (in their order, repetitions kept) and the
  expanded default rules, joined by fixed separators.
\<close>

theorem getCompiledProgram_cache:
  "(getCompiledProgram ap co ul al e n r d = Inr (prog, e') \<longrightarrow>
      getCompiledProgram ap co ul al e' n r d = Inr (prog, e') \<and>
      compiledProgamCache e' (programKeyFromRules e n r d) = Some prog) \<and>
   (cache_ok e \<and> getCompiledProgram ap co ul al e n1 r1 d1 = Inr (prog1, e1) \<and>
    getCompiledProgram ap co ul al e1 n2 r2 d2 = Inr (prog2, e2) \<longrightarrow>
      (prog1 = prog2 \<longleftrightarrow> programKeyFromRules e n1 r1 d1 = programKeyFromRules e n2 r2 d2) \<and>
      cache_ok e2) \<and>
   programKeyFromRules e n r d
     = ''$PROGRAMNAME: '' @ n @ ''#  $RULES: '' @ concat (map (\<lambda>s. s @ ''# '') r)
       @ ''  $DEFAULTS: '' @ concat (map (\<lambda>s. s @ ''# '') (defaultRules e d))"
proof -
  have again: "getCompiledProgram ap co ul al e' n r d = Inr (prog, e') \<and>
      compiledProgamCache e' (programKeyFromRules e n r d) = Some prog"
    if run: "getCompiledProgram ap co ul al e n r d = Inr (prog, e')"
  proof -
    note hit = getCompiledProgram_cached [OF run]
    have "programKeyFromRules e' n r d = programKeyFromRules e n r d"
      by (simp only: getCompiledProgram_key [OF run])
    with hit have "getCompiledProgram ap co ul al e' n r d = Inr (prog, e')"
      by (simp add: getCompiledProgram_def Let_def)
    with hit show ?thesis by simp
  qed
  have two: "(prog1 = prog2 \<longleftrightarrow> programKeyFromRules e n1 r1 d1 = programKeyFromRules e n2 r2 d2) \<and>
      cache_ok e2"
    if ok: "cache_ok e" and run1: "getCompiledProgram ap co ul al e n1 r1 d1 = Inr (prog1, e1)"
      and run2: "getCompiledProgram ap co ul al e1 n2 r2 d2 = Inr (prog2, e2)"
  proof -
    define k1 where "k1 = programKeyFromRules e n1 r1 d1"
    define k2 where "k2 = programKeyFromRules e n2 r2 d2"
    have ok1: "cache_ok e1" by (rule getCompiledProgram_cache_ok [OF run1 ok])
    have ok2: "cache_ok e2" by (rule getCompiledProgram_cache_ok [OF run2 ok1])
    have c1: "compiledProgamCache e1 k1 = Some prog1"
      unfolding k1_def by (rule getCompiledProgram_cached [OF run1])
    have key: "programKeyFromRules e1 n2 r2 d2 = k2"
      unfolding k2_def by (simp only: getCompiledProgram_key [OF run1])
    from ok1 have inj: "inj_on (compiledProgamCache e1) (dom (compiledProgamCache e1))"
      and lt: "\<And>k h. compiledProgamCache e1 k = Some h \<Longrightarrow> h < length (compiledPrograms e1)"
      unfolding cache_ok_def by blast+
    from getCompiledProgram_cases [OF run2] key
    consider (hit) "compiledProgamCache e1 k2 = Some prog2"
      | (miss) "compiledProgamCache e1 k2 = None" "prog2 = length (compiledPrograms e1)"
      by auto
    then have "prog1 = prog2 \<longleftrightarrow> k1 = k2"
    proof cases
      case hit
      show ?thesis
      proof
        assume "prog1 = prog2"
        with c1 hit have "compiledProgamCache e1 k1 = compiledProgamCache e1 k2" by simp
        moreover from c1 hit have "k1 \<in> dom (compiledProgamCache e1)"
          "k2 \<in> dom (compiledProgamCache e1)" by auto
        ultimately show "k1 = k2" using inj by (meson inj_onD)
      next
        assume "k1 = k2"
        with c1 hit show "prog1 = prog2" by simp
      qed
    next
      case miss
      from lt [OF c1] miss(2) have "prog1 \<noteq> prog2" by simp
      moreover from c1 miss(1) have "k1 \<noteq> k2" by auto
      ultimately show ?thesis by simp
    qed
    with ok2 show ?thesis by (simp add: k1_def k2_def)
  qed
  have key: "programKeyFromRules e n r d
     = ''$PROGRAMNAME: '' @ n @ ''#  $RULES: '' @ concat (map (\<lambda>s. s @ ''# '') r)
       @ ''  $DEFAULTS: '' @ concat (map (\<lambda>s. s @ ''# '') (defaultRules e d))"
    by (simp add: programKeyFromRules_def)
  have A: "getCompiledProgram ap co ul al e n r d = Inr (prog, e') \<longrightarrow>
      getCompiledProgram ap co ul al e' n r d = Inr (prog, e') \<and>
      compiledProgamCache e' (programKeyFromRules e n r d) = Some prog"
    by (rule impI) (rule again)
  have B: "cache_ok e \<and> getCompiledProgram ap co ul al e n1 r1 d1 = Inr (prog1, e1) \<and>
    getCompiledProgram ap co ul al e1 n2 r2 d2 = Inr (prog2, e2) \<longrightarrow>
      (prog1 = prog2 \<longleftrightarrow> programKeyFromRules e n1 r1 d1 = programKeyFromRules e n2 r2 d2) \<and>
      cache_ok e2"
    by (intro impI, elim conjE) (rule two)
  from A B key show ?thesis by (intro conjI)
qed

lemmas engine_eval = getCompiledProgram_def programKeyFromRules_def defaultRules_def
  startEngine_def engineAfter_def Let_def meshStages_def meshProgram_def program_eval

lemma first_request:
  "getCompiledProgram (\<lambda>stages rules. Inr stages) (\<lambda>_. True) (\<lambda>_. 0) (\<lambda>_. 0)
     startEngine ''MESH'' [''A''] None' = Inr (0, engineAfter)"
  by (simp add: engine_eval)

text \<open>
  Claim C1 as stated fails: the key is built from the rule list as supplied. The lists
  \<open>[A]\<close> and \<open>[A, A]\<close>, and \<open>[A, B]\<close> and \<open>[B, A]\<close>, name the same rules and get two
  programs; the lists \<open>[A, B]\<close> and \<open>[A# B]\<close> differ and get one, since their keys are
  the same string.
\<close>

theorem getCompiledProgram_rule_lists:
  "requestTwice (\<lambda>stages rules. Inr stages) (\<lambda>_. True) (\<lambda>_. 0) (\<lambda>_. 0)
     startEngine ''MESH'' [''A''] None' [''A'', ''A''] None' = Inr (0, 1) \<and>
   requestTwice (\<lambda>stages rules. Inr stages) (\<lambda>_. True) (\<lambda>_. 0) (\<lambda>_. 0)
     startEngine ''MESH'' [''A'', ''B''] None' [''B'', ''A''] None' = Inr (0, 1) \<and>
   requestTwice (\<lambda>stages rules. Inr stages) (\<lambda>_. True) (\<lambda>_. 0) (\<lambda>_. 0)
     startEngine ''MESH'' [''A'', ''B''] None' [''A# B''] None' = Inr (0, 0)"
  by (simp add: requestTwice_def engine_eval)

lemma second_request:
  "\<exists>e2. getCompiledProgram (\<lambda>stages rules. Inr stages) (\<lambda>_. True) (\<lambda>_. 0) (\<lambda>_. 0)
          engineAfter ''MESH'' [''A'', ''A''] None' = Inr (1, e2)"
  by (simp add: engine_eval)

theorem getCompiledProgram_cache_witness:
  "cache_ok startEngine \<and>
   getCompiledProgram (\<lambda>stages rules. Inr stages) (\<lambda>_. True) (\<lambda>_. 0) (\<lambda>_. 0)
     startEngine ''MESH'' [''A''] None' = Inr (0, engineAfter) \<and>
   getCompiledProgram (\<lambda>stages rules. Inr stages) (\<lambda>_. True) (\<lambda>_. 0) (\<lambda>_. 0)
     engineAfter ''MESH'' [''A''] None' = Inr (0, engineAfter) \<and>
   compiledProgamCache engineAfter (programKeyFromRules startEngine ''MESH'' [''A''] None')
     = Some 0 \<and>
   programKeyFromRules startEngine ''MESH'' [''A''] None'
     \<noteq> programKeyFromRules startEngine ''MESH'' [''A'', ''A''] None'"
proof -
  have ok: "cache_ok startEngine" by (simp add: cache_ok_def startEngine_def)
  note run1 = first_request
  note again = getCompiledProgram_cache [THEN conjunct1, rule_format, OF run1]
  from second_request obtain e2 where
    run2: "getCompiledProgram (\<lambda>stages rules. Inr stages) (\<lambda>_. True) (\<lambda>_. 0) (\<lambda>_. 0)
             engineAfter ''MESH'' [''A'', ''A''] None' = Inr (1, e2)" ..
  from getCompiledProgram_cache [THEN conjunct2, THEN conjunct1, rule_format,
      OF conjI [OF ok conjI [OF run1 run2]]]
  have "(0 :: nat) = 1 \<longleftrightarrow> programKeyFromRules startEngine ''MESH'' [''A''] None'
          = programKeyFromRules startEngine ''MESH'' [''A'', ''A''] None'"
    by (rule conjunct1)
  then have ne: "programKeyFromRules startEngine ''MESH'' [''A''] None'
          \<noteq> programKeyFromRules startEngine ''MESH'' [''A'', ''A''] None'"
    by simp
  from ok run1 again ne show ?thesis by (intro conjI) simp_all
qed

section \<open>Properties of the program instance\<close>

lemma setUniform_loop_unresolved:
  assumes "name \<in> u_name ` set us" "\<forall>u\<in>set us. u_name u = name \<longrightarrow> u_location u = - 1"
  shows "setUniform_loop us name ty = Inr us"
  using assms by (induction us) auto

lemma setAttribute_buffer_loop_unresolved:
  assumes "name \<in> a_name ` set as" "\<forall>a\<in>set as. a_name a = name \<longrightarrow> a_location a = - 1"
  shows "setAttribute_buffer_loop cc as name ext = Inr as"
  using assms by (induction as) auto

lemma setAttribute_data_loop_unresolved:
  assumes "\<forall>a\<in>set as. a_name a = name \<longrightarrow> a_location a = - 1"
  shows "setAttribute_data_loop gen toFloat as name data = Inl (NonexistentAttribute name)"
  using assms by (induction as) auto

lemma withTexture_unresolved:
  assumes "\<forall>t\<in>set ts. t_name t = name \<longrightarrow> t_location t = - 1"
  shows "withTexture name body ts = Inl (NoTexture name)"
  using assms by (induction ts) auto

lemma list_ex_unresolved:
  "\<forall>x\<in>set xs. nm x = name \<longrightarrow> loc x = (- 1 :: int) \<Longrightarrow>
     \<not> list_ex (\<lambda>x. nm x = name \<and> loc x \<noteq> - 1) xs"
  by (auto simp: list_ex_iff)

text \<open>
  Claim C2, as the code has it. Take a name that the program declares and that has no
  location in any entry. For a uniform, \<open>setUniform\<close> returns with the program as it
  was and \<open>hasUniform\<close> is false. For an attribute, \<open>setAttribute\<close> with an external
  buffer returns with the program as it was, \<open>setAttribute\<close> with data throws
  "nonexistent attribute", and \<open>hasAttribute\<close> is false. For a texture, every texture
  setter throws ("No texture with name"; \<open>setTexture1D\<close> throws before it looks, and
  the colormap setter first looks the colormap up), and \<open>hasTexture\<close> is false.
\<close>

theorem unresolved_names:
  "(name \<in> u_name ` set (sp_uniforms p) \<and>
    (\<forall>u\<in>set (sp_uniforms p). u_name u = name \<longrightarrow> u_location u = - 1) \<longrightarrow>
      setUniform p name val = Inr p \<and> \<not> hasUniform p name) \<and>
   (name \<in> a_name ` set (sp_attributes p) \<and>
    (\<forall>a\<in>set (sp_attributes p). a_name a = name \<longrightarrow> a_location a = - 1) \<longrightarrow>
      setAttribute_buffer countCompat p name externalBuffer = Inr p \<and>
      setAttribute_data gen toFloat p name data = Inl (NonexistentAttribute name) \<and>
      \<not> hasAttribute p name) \<and>
   (name \<in> t_name ` set (sp_textures p) \<and>
    (\<forall>t\<in>set (sp_textures p). t_name t = name \<longrightarrow> t_location t = - 1) \<longrightarrow>
      setTexture1D p name texData len = Inl NotTested \<and>
      setTexture2D p name texData width height withAlpha useMipMap repeat = Inl (NoTexture name) \<and>
      setTextureFromBuffer p name textureBuffer = Inl (NoTexture name) \<and>
      (getColorMap colormapName \<noteq> None \<longrightarrow>
         setTextureFromColormap getColorMap toFloat p name colormapName allowUpdate
           = Inl (NoTexture name)) \<and>
      \<not> hasTexture p name)"
proof -
  have U: "setUniform p name val = Inr p \<and> \<not> hasUniform p name"
    if "name \<in> u_name ` set (sp_uniforms p) \<and>
        (\<forall>u\<in>set (sp_uniforms p). u_name u = name \<longrightarrow> u_location u = - 1)"
    using that setUniform_loop_unresolved [of name "sp_uniforms p" "overloadType val"]
      list_ex_unresolved [of "sp_uniforms p" u_name name u_location]
    by (simp add: setUniform_def hasUniform_def)
  have A: "setAttribute_buffer countCompat p name externalBuffer = Inr p \<and>
      setAttribute_data gen toFloat p name data = Inl (NonexistentAttribute name) \<and>
      \<not> hasAttribute p name"
    if "name \<in> a_name ` set (sp_attributes p) \<and>
        (\<forall>a\<in>set (sp_attributes p). a_name a = name \<longrightarrow> a_location a = - 1)"
    using that
      setAttribute_buffer_loop_unresolved [of name "sp_attributes p" countCompat externalBuffer]
      setAttribute_data_loop_unresolved [of "sp_attributes p" name gen toFloat data]
      list_ex_unresolved [of "sp_attributes p" a_name name a_location]
    by (simp add: setAttribute_buffer_def setAttribute_data_def hasAttribute_def)
  have T: "setTexture1D p name texData len = Inl NotTested \<and>
      setTexture2D p name texData width height withAlpha useMipMap repeat = Inl (NoTexture name) \<and>
      setTextureFromBuffer p name textureBuffer = Inl (NoTexture name) \<and>
      (getColorMap colormapName \<noteq> None \<longrightarrow>
         setTextureFromColormap getColorMap toFloat p name colormapName allowUpdate
           = Inl (NoTexture name)) \<and>
      \<not> hasTexture p name"
    if h: "name \<in> t_name ` set (sp_textures p) \<and>
        (\<forall>t\<in>set (sp_textures p). t_name t = name \<longrightarrow> t_location t = - 1)"
  proof -
    from h have w: "withTexture name body (sp_textures p) = Inl (NoTexture name)" for body
      by (intro withTexture_unresolved) simp
    from h have "\<not> hasTexture p name"
      using list_ex_unresolved [of "sp_textures p" t_name name t_location]
      by (simp add: hasTexture_def)
    then show ?thesis
      by (auto simp: setTexture1D_def setTexture2D_def setTextureFromBuffer_def
          setTextureFromColormap_def w)
  qed
  from impI [OF U] impI [OF A] impI [OF T] show ?thesis by (intro conjI)
qed

lemmas instance_eval = setUniform_def hasUniform_def hasAttribute_def hasTexture_def
  setAttribute_buffer_def setAttribute_data_def setTexture1D_def setTexture2D_def
  setTextureFromBuffer_def setTextureFromColormap_def strippedProgram_def texturedProgram_def
  imageSlot_def imageTexture_def otherTexture_def Let_def

theorem unresolved_names_witness:
  "''u_color'' \<in> u_name ` set (sp_uniforms strippedProgram) \<and>
   setUniform strippedProgram ''u_color'' Arg_vec3 = Inr strippedProgram \<and>
   \<not> hasUniform strippedProgram ''u_color'' \<and>
   ''a_position'' \<in> a_name ` set (sp_attributes strippedProgram) \<and>
   setAttribute_buffer (\<lambda>x y. 1) strippedProgram ''a_position'' (GLBuffer floatBuffer)
     = Inr strippedProgram \<and>
   \<not> hasAttribute strippedProgram ''a_position'' \<and>
   ''t_image'' \<in> t_name ` set (sp_textures strippedProgram) \<and>
   \<not> hasTexture strippedProgram ''t_image''"
proof -
  have u1: "''u_color'' \<in> u_name ` set (sp_uniforms strippedProgram)"
    and u2: "\<forall>u\<in>set (sp_uniforms strippedProgram). u_name u = ''u_color'' \<longrightarrow> u_location u = - 1"
    and a1: "''a_position'' \<in> a_name ` set (sp_attributes strippedProgram)"
    and a2: "\<forall>a\<in>set (sp_attributes strippedProgram).
               a_name a = ''a_position'' \<longrightarrow> a_location a = - 1"
    and t1: "''t_image'' \<in> t_name ` set (sp_textures strippedProgram)"
    and t2: "\<forall>t\<in>set (sp_textures strippedProgram). t_name t = ''t_image'' \<longrightarrow> t_location t = - 1"
    by (simp_all add: strippedProgram_def)
  note U = unresolved_names [THEN conjunct1, rule_format, OF conjI [OF u1 u2]]
  note A = unresolved_names [THEN conjunct2, THEN conjunct1, rule_format, OF conjI [OF a1 a2]]
  note T = unresolved_names [THEN conjunct2, THEN conjunct2, rule_format, OF conjI [OF t1 t2]]
  from U have U1: "setUniform strippedProgram ''u_color'' Arg_vec3 = Inr strippedProgram"
    and U2: "\<not> hasUniform strippedProgram ''u_color''" by blast+
  from A have A1: "setAttribute_buffer (\<lambda>x y. 1) strippedProgram ''a_position''
       (GLBuffer floatBuffer) = Inr strippedProgram"
    and A2: "\<not> hasAttribute strippedProgram ''a_position''" by blast+
  from T have T2: "\<not> hasTexture strippedProgram ''t_image''" by blast
  from u1 U1 U2 a1 A1 A2 t1 T2 show ?thesis by (intro conjI)
qed

text \<open>
  Claim C2 as stated fails for the texture setters and for \<open>setAttribute\<close> with data:
  on a name without a location they throw.
\<close>

theorem unresolved_setters_throw:
  "t_location (hd (sp_textures strippedProgram)) = - 1 \<and>
   setTextureFromBuffer strippedProgram ''t_image'' (GLTexture imageTexture)
     = Inl (NoTexture ''t_image'') \<and>
   setTexture2D strippedProgram ''t_image'' [255, 0, 0] 1 1 False False False
     = Inl (NoTexture ''t_image'') \<and>
   a_location (hd (sp_attributes strippedProgram)) = - 1 \<and>
   setAttribute_data (\<lambda>ty n. floatBuffer) ucast strippedProgram ''a_position''
       (AVec3 [(1, 2, 3)])
     = Inl (NonexistentAttribute ''a_position'')"
  by (simp add: instance_eval)

lemma withTexture_fails:
  "find (\<lambda>t. t_name t = name \<and> t_location t \<noteq> - 1) ts = Some t \<Longrightarrow> body t = Inl e \<Longrightarrow>
     withTexture name body ts = Inl e"
  by (induction ts) (auto split: if_splits)

lemma withTexture_updates:
  "find (\<lambda>t. t_name t = name \<and> t_location t \<noteq> - 1) ts = Some t \<Longrightarrow> body t = Inr t' \<Longrightarrow>
   t_name t' = name \<Longrightarrow> t_location t' \<noteq> - 1 \<Longrightarrow>
     \<exists>ts'. withTexture name body ts = Inr ts' \<and>
           find (\<lambda>t. t_name t = name \<and> t_location t \<noteq> - 1) ts' = Some t'"
  by (induction ts) (auto split: if_splits)

text \<open>
  Claim C3, as the code has it. Take the slot a texture setter finds for a name (the
  first entry of that name with a location), and let it be set. Then \<open>setTexture1D\<close>
  throws (as it always does), \<open>setTexture2D\<close> throws "set twice", and the colormap
  setter, given a colormap the engine knows, throws "set twice" without \<open>allowUpdate\<close>;
  with \<open>allowUpdate\<close> it throws a dimension error on a slot that is not
  one-dimensional and otherwise succeeds and leaves its new texture in the slot.
  \<open>setTextureFromBuffer\<close> throws on a texture of another dimension and otherwise, for a
  texture of this backend, succeeds and leaves that texture in the slot.
\<close>

theorem texture_set_again:
  "find (\<lambda>t. t_name t = name \<and> t_location t \<noteq> - 1) (sp_textures p) = Some t \<and> t_isSet t \<longrightarrow>
     setTexture1D p name texData len = Inl NotTested \<and>
     setTexture2D p name texData width height withAlpha useMipMap repeat = Inl TextureSetTwice \<and>
     (getColorMap colormapName = Some samples \<longrightarrow>
        setTextureFromColormap getColorMap toFloat p name colormapName False
          = Inl TextureSetTwice \<and>
        (t_dim t \<noteq> 1 \<longrightarrow>
           setTextureFromColormap getColorMap toFloat p name colormapName True
             = Inl (MismatchedDimension (t_dim t))) \<and>
        (t_dim t = 1 \<longrightarrow>
           (\<exists>p' t'. setTextureFromColormap getColorMap toFloat p name colormapName True = Inr p' \<and>
              find (\<lambda>t. t_name t = name \<and> t_location t \<noteq> - 1) (sp_textures p') = Some t' \<and>
              t_isSet t' \<and>
              t_textureBuffer t' =
                Some \<lparr>tex_dim = 1, tex_format = RGB32F, tex_sizes = [length samples],
                      tex_filter = Linear, tex_repeat = False, tex_mipmap = False,
                      tex_data = FloatPixels (concat (map (colorCells toFloat) samples))\<rparr>))) \<and>
     (t_dim t \<noteq> getDimension textureBuffer \<longrightarrow>
        setTextureFromBuffer p name textureBuffer = Inl (MismatchedDimension (t_dim t))) \<and>
     (t_dim t = tex_dim tex \<longrightarrow>
        (\<exists>p' t'. setTextureFromBuffer p name (GLTexture tex) = Inr p' \<and>
           find (\<lambda>t. t_name t = name \<and> t_location t \<noteq> - 1) (sp_textures p') = Some t' \<and>
           t_isSet t' \<and> t_textureBuffer t' = Some tex))"
proof (intro impI, elim conjE)
  assume f: "find (\<lambda>t. t_name t = name \<and> t_location t \<noteq> - 1) (sp_textures p) = Some t"
    and s: "t_isSet t"
  from f have nm: "t_name t = name" "t_location t \<noteq> - 1" by (auto simp: find_Some_iff)
  have c1: "setTexture1D p name texData len = Inl NotTested" by (simp add: setTexture1D_def)
  have c2: "setTexture2D p name texData width height withAlpha useMipMap repeat
              = Inl TextureSetTwice"
    unfolding setTexture2D_def by (subst withTexture_fails [OF f]) (simp_all add: s)
  have c3: "setTextureFromColormap getColorMap toFloat p name colormapName False
          = Inl TextureSetTwice" if "getColorMap colormapName = Some samples"
    unfolding setTextureFromColormap_def using that
    by (simp, subst withTexture_fails [OF f]) (simp_all add: s)
  have c4: "setTextureFromColormap getColorMap toFloat p name colormapName True
             = Inl (MismatchedDimension (t_dim t))"
    if "getColorMap colormapName = Some samples" "t_dim t \<noteq> 1"
    unfolding setTextureFromColormap_def using that
    by (simp, subst withTexture_fails [OF f]) simp_all
  have c5: "\<exists>p' t'. setTextureFromColormap getColorMap toFloat p name colormapName True = Inr p' \<and>
              find (\<lambda>t. t_name t = name \<and> t_location t \<noteq> - 1) (sp_textures p') = Some t' \<and>
              t_isSet t' \<and>
              t_textureBuffer t' =
                Some \<lparr>tex_dim = 1, tex_format = RGB32F, tex_sizes = [length samples],
                      tex_filter = Linear, tex_repeat = False, tex_mipmap = False,
                      tex_data = FloatPixels (concat (map (colorCells toFloat) samples))\<rparr>"
    if cm: "getColorMap colormapName = Some samples" and d: "t_dim t = 1"
  proof -
    let ?owned = "\<lparr>tex_dim = 1, tex_format = RGB32F, tex_sizes = [length samples],
                      tex_filter = Linear, tex_repeat = False, tex_mipmap = False,
                      tex_data = FloatPixels (concat (map (colorCells toFloat) samples))\<rparr>"
    let ?body = "\<lambda>t. if t_isSet t \<and> \<not> True then Inl TextureSetTwice
                       else if t_dim t \<noteq> 1 then Inl (MismatchedDimension (t_dim t))
                       else (let colorBuffer = concat (map (colorCells toFloat) samples);
                                 owned = \<lparr>tex_dim = 1, tex_format = RGB32F,
                                          tex_sizes = [length samples], tex_filter = Linear,
                                          tex_repeat = False, tex_mipmap = False,
                                          tex_data = FloatPixels colorBuffer\<rparr>
                             in Inr (t\<lparr>t_textureBufferOwned := Some owned,
                                       t_textureBuffer := Some owned, t_isSet := True\<rparr>))"
    let ?t' = "t\<lparr>t_textureBufferOwned := Some ?owned, t_textureBuffer := Some ?owned,
                 t_isSet := True\<rparr>"
    have b: "?body t = Inr ?t'" using d by (simp add: Let_def)
    from withTexture_updates [where body = ?body and t' = ?t', OF f b] nm obtain ts' where
      w: "withTexture name ?body (sp_textures p) = Inr ts'"
      and f': "find (\<lambda>t. t_name t = name \<and> t_location t \<noteq> - 1) ts' = Some ?t'"
      by auto
    have "setTextureFromColormap getColorMap toFloat p name colormapName True
            = Inr (p\<lparr>sp_textures := ts'\<rparr>)"
      unfolding setTextureFromColormap_def by (simp only: cm option.simps w sum.simps)
    with f' show ?thesis by force
  qed
  have c6: "setTextureFromBuffer p name textureBuffer = Inl (MismatchedDimension (t_dim t))"
    if "t_dim t \<noteq> getDimension textureBuffer"
    unfolding setTextureFromBuffer_def using that
    by (subst withTexture_fails [OF f]) simp_all
  have c7: "\<exists>p' t'. setTextureFromBuffer p name (GLTexture tex) = Inr p' \<and>
           find (\<lambda>t. t_name t = name \<and> t_location t \<noteq> - 1) (sp_textures p') = Some t' \<and>
           t_isSet t' \<and> t_textureBuffer t' = Some tex"
    if d: "t_dim t = tex_dim tex"
  proof -
    let ?body = "\<lambda>t. if t_dim t \<noteq> getDimension (GLTexture tex)
                  then Inl (MismatchedDimension (t_dim t))
                  else (case GLTexture tex of
                          OtherTexture d \<Rightarrow> Inl CastFailed
                        | GLTexture tex \<Rightarrow>
                            Inr (t\<lparr>t_textureBuffer := Some tex, t_isSet := True\<rparr>))"
    let ?t' = "t\<lparr>t_textureBuffer := Some tex, t_isSet := True\<rparr>"
    have b: "?body t = Inr ?t'" using d by simp
    from withTexture_updates [where body = ?body and t' = ?t', OF f b] nm obtain ts' where
      w: "withTexture name ?body (sp_textures p) = Inr ts'"
      and f': "find (\<lambda>t. t_name t = name \<and> t_location t \<noteq> - 1) ts' = Some ?t'"
      by auto
    have "setTextureFromBuffer p name (GLTexture tex) = Inr (p\<lparr>sp_textures := ts'\<rparr>)"
      unfolding setTextureFromBuffer_def by (simp only: w sum.simps)
    with f' show ?thesis by force
  qed
  from c1 c2 c3 c4 c5 c6 c7
  show "setTexture1D p name texData len = Inl NotTested \<and>
     setTexture2D p name texData width height withAlpha useMipMap repeat = Inl TextureSetTwice \<and>
     (getColorMap colormapName = Some samples \<longrightarrow>
        setTextureFromColormap getColorMap toFloat p name colormapName False
          = Inl TextureSetTwice \<and>
        (t_dim t \<noteq> 1 \<longrightarrow>
           setTextureFromColormap getColorMap toFloat p name colormapName True
             = Inl (MismatchedDimension (t_dim t))) \<and>
        (t_dim t = 1 \<longrightarrow>
           (\<exists>p' t'. setTextureFromColormap getColorMap toFloat p name colormapName True = Inr p' \<and>
              find (\<lambda>t. t_name t = name \<and> t_location t \<noteq> - 1) (sp_textures p') = Some t' \<and>
              t_isSet t' \<and>
              t_textureBuffer t' =
                Some \<lparr>tex_dim = 1, tex_format = RGB32F, tex_sizes = [length samples],
                      tex_filter = Linear, tex_repeat = False, tex_mipmap = False,
                      tex_data = FloatPixels (concat (map (colorCells toFloat) samples))\<rparr>))) \<and>
     (t_dim t \<noteq> getDimension textureBuffer \<longrightarrow>
        setTextureFromBuffer p name textureBuffer = Inl (MismatchedDimension (t_dim t))) \<and>
     (t_dim t = tex_dim tex \<longrightarrow>
        (\<exists>p' t'. setTextureFromBuffer p name (GLTexture tex) = Inr p' \<and>
           find (\<lambda>t. t_name t = name \<and> t_location t \<noteq> - 1) (sp_textures p') = Some t' \<and>
           t_isSet t' \<and> t_textureBuffer t' = Some tex))"
    by (intro conjI impI) assumption+
qed

theorem texture_set_again_witness:
  "find (\<lambda>t. t_name t = ''t_image'' \<and> t_location t \<noteq> - 1) (sp_textures texturedProgram)
     = Some imageSlot \<and>
   t_isSet imageSlot \<and>
   setTexture2D texturedProgram ''t_image'' [0, 0, 255] 1 1 False False False
     = Inl TextureSetTwice \<and>
   setTextureFromColormap (\<lambda>n. Some [(0, 0, 0)]) ucast texturedProgram ''t_image'' ''viridis''
       False
     = Inl TextureSetTwice"
proof -
  have f: "find (\<lambda>t. t_name t = ''t_image'' \<and> t_location t \<noteq> - 1) (sp_textures texturedProgram)
             = Some imageSlot"
    by (simp add: texturedProgram_def imageSlot_def)
  have s: "t_isSet imageSlot" by (simp add: imageSlot_def)
  have cm: "(\<lambda>n :: string. Some [(0 :: float64, 0 :: float64, 0 :: float64)]) ''viridis''
              = Some [(0, 0, 0)]"
    by simp
  note r = texture_set_again
    [where getColorMap = "\<lambda>n. Some [(0, 0, 0)]" and colormapName = "''viridis''"
       and samples = "[(0, 0, 0)]" and toFloat = ucast and texData = "[0, 0, 255]"
       and width = 1 and height = 1 and withAlpha = False and useMipMap = False
       and repeat = False,
     rule_format, OF conjI [OF f s]]
  from r have c2: "setTexture2D texturedProgram ''t_image'' [0, 0, 255] 1 1 False False False
                     = Inl TextureSetTwice"
    by (rule conjunct2 [THEN conjunct1])
  from r cm have c3: "setTextureFromColormap (\<lambda>n. Some [(0, 0, 0)]) ucast texturedProgram
                        ''t_image'' ''viridis'' False = Inl TextureSetTwice"
    by blast
  from f s c2 c3 show ?thesis by (intro conjI)
qed

text \<open>
  Claim C3 as stated fails twice on a slot that is set: \<open>setTextureFromBuffer\<close> does
  not look at \<open>isSet\<close> and puts the new texture into the slot, and the colormap setter
  with \<open>allowUpdate\<close> throws on a slot that is not one-dimensional.
\<close>

theorem setTextureFromBuffer_sets_again:
  "find (\<lambda>t. t_name t = ''t_image'' \<and> t_location t \<noteq> - 1) (sp_textures texturedProgram)
     = Some imageSlot \<and>
   t_isSet imageSlot \<and>
   setTextureFromBuffer texturedProgram ''t_image'' (GLTexture otherTexture)
     = Inr (texturedProgram\<lparr>sp_textures := [imageSlot\<lparr>t_textureBuffer := Some otherTexture\<rparr>]\<rparr>) \<and>
   setTextureFromColormap (\<lambda>n. Some [(0, 0, 0)]) ucast texturedProgram ''t_image'' ''viridis''
       True
     = Inl (MismatchedDimension 2)"
  by (simp add: instance_eval)

end
